theory Spec2Isabelle
  imports Complex_Main "HOL-Library.Log_Nat"
begin

chapter \<open>DiscordRPG: item generation, outcome simulation and the work-unit engine\<close>

section \<open>Python numbers\<close>

text \<open>
  Python's \<open>int\<close> is unbounded and is modelled by \<^typ>\<open>int\<close>. Python's \<open>float\<close> is an
  IEEE 754 binary64 number; a float value is modelled by the rational number it denotes, and
  every float operation by the exact operation followed by rounding to the nearest number
  with a 53-bit significand, ties to the even significand (\<open>fl\<close>). The exponent range is
  not modelled: the model is the machine arithmetic for results of magnitude between
  \<open>2\<^sup>-\<^sup>1\<^sup>0\<^sup>2\<^sup>2\<close> and \<open>2\<^sup>1\<^sup>0\<^sup>2\<^sup>4\<close> (and for zero), which covers every value computed below from
  the inputs the theorems range over.
\<close>

definition ilog2 :: "rat \<Rightarrow> int" where
  \<comment> \<open>the integer \<open>k\<close> with \<open>2\<^sup>k \<le> x < 2\<^sup>k\<^sup>+\<^sup>1\<close>, for positive \<open>x\<close>\<close>
  "ilog2 x = (if 1 \<le> x then bitlen \<lfloor>x\<rfloor> - 1 else - bitlen (\<lceil>1 / x\<rceil> - 1))"

definition round_even :: "rat \<Rightarrow> int" where
  \<comment> \<open>nearest integer, a tie going to the even neighbour\<close>
  "round_even x = (let f = \<lfloor>x\<rfloor>; d = x - of_int f in
     if d < 1/2 then f else if 1/2 < d then f + 1 else if even f then f else f + 1)"

definition fl :: "rat \<Rightarrow> rat" where
  \<comment> \<open>rounding to binary64: the unit in the last place of \<open>x\<close> is \<open>2\<^sup>k\<^sup>-\<^sup>5\<^sup>2\<close> for \<open>k = ilog2 \<bar>x\<bar>\<close>\<close>
  "fl x = (if x = 0 then 0 else
     let s = 2 powi (ilog2 \<bar>x\<bar> - 52) in of_int (round_even (x / s)) * s)"

definition to_float :: "int \<Rightarrow> rat" where
  \<comment> \<open>\<open>float(n)\<close>, also the implicit conversion of an int operand of a float operation.
     Python raises \<open>OverflowError\<close> for an int of magnitude \<open>2\<^sup>1\<^sup>0\<^sup>2\<^sup>4\<close> or more; the theorems
     below bound every int they convert far below that.\<close>
  "to_float n = fl (of_int n)"

definition fadd :: "rat \<Rightarrow> rat \<Rightarrow> rat" where
  "fadd a b = fl (a + b)"

definition fsub :: "rat \<Rightarrow> rat \<Rightarrow> rat" where
  "fsub a b = fl (a - b)"

definition fmul :: "rat \<Rightarrow> rat \<Rightarrow> rat" where
  "fmul a b = fl (a * b)"

definition fdiv :: "rat \<Rightarrow> rat \<Rightarrow> rat" where
  \<comment> \<open>only used with the non-zero literal divisors \<open>100\<close> and \<open>100.0\<close>\<close>
  "fdiv a b = fl (a / b)"

definition py_int :: "rat \<Rightarrow> int" where
  \<comment> \<open>\<open>int(x)\<close> of a float: truncation towards zero\<close>
  "py_int x = (if 0 \<le> x then \<lfloor>x\<rfloor> else \<lceil>x\<rceil>)"


section \<open>The random source\<close>

text \<open>
  The module-level generator of \<open>random\<close> is a state that every call advances. It is
  modelled by the sequence of raw words (integers) it will still produce; each library function
  consumes one word and maps it into its range the way CPython does:
  \<open>randint(a, b) = a + randbelow(b - a + 1)\<close>, \<open>choice(seq) = seq[randbelow(len(seq))]\<close>,
  \<open>random()\<close> is \<open>k / 2\<^sup>5\<^sup>3\<close> for a 53-bit \<open>k\<close>, and
  \<open>uniform(a, b) = a + (b - a) * random()\<close>. A word \<open>w\<close> stands for the outcome
  \<open>w mod n\<close> of \<open>randbelow(n)\<close>, so every outcome the library can return is covered.
\<close>

datatype error = ValueError | IndexError

type_synonym rng = "nat \<Rightarrow> int"

type_synonym 'a rand = "error + ('a \<times> rng)"

definition tape :: "int list \<Rightarrow> rng" where
  \<comment> \<open>a generator whose next words are the given ones (and 0 afterwards)\<close>
  "tape ws = (\<lambda>i. if i < length ws then ws ! i else 0)"

definition advance :: "rng \<Rightarrow> rng" where
  "advance g = (\<lambda>i. g (Suc i))"

definition bind_r :: "'a rand \<Rightarrow> ('a \<Rightarrow> rng \<Rightarrow> 'b rand) \<Rightarrow> 'b rand" where
  \<comment> \<open>sequencing: an exception of the first call ends the computation\<close>
  "bind_r m f = (case m of Inl e \<Rightarrow> Inl e | Inr (x, g) \<Rightarrow> f x g)"

definition randbelow :: "int \<Rightarrow> rng \<Rightarrow> int rand" where
  "randbelow n g = (if n \<le> 0 then Inl ValueError else Inr (g 0 mod n, advance g))"

definition randint :: "int \<Rightarrow> int \<Rightarrow> rng \<Rightarrow> int rand" where
  "randint a b g = bind_r (randbelow (b - a + 1) g) (\<lambda>r g'. Inr (a + r, g'))"

definition choice :: "'a list \<Rightarrow> rng \<Rightarrow> 'a rand" where
  "choice xs g = (if xs = [] then Inl IndexError
     else Inr (xs ! nat (g 0 mod int (length xs)), advance g))"

definition random_py :: "rng \<Rightarrow> rat \<times> rng" where
  "random_py g = (of_int (g 0 mod 2 ^ 53) / 2 ^ 53, advance g)"

definition uniform :: "rat \<Rightarrow> rat \<Rightarrow> rng \<Rightarrow> rat \<times> rng" where
  "uniform a b g = (let (u, g') = random_py g in (fadd a (fmul (fsub b a) u), g'))"

section \<open>Items (\<open>classes/items.py\<close>)\<close>

datatype ItemType =
    SWORD | SHIELD | AXE | BOW | SPEAR | WAND | DAGGER | KNIFE | HAMMER | STAFF | MACE
  | CROSSBOW | GREATSWORD | HALBERD | KATANA | SCYTHE
  | HELMET | CHESTPLATE | LEGGINGS | GAUNTLETS | BOOTS

datatype ItemHand = LEFT | RIGHT | BOTH | ANY

datatype ItemRarity = COMMON | UNCOMMON | RARE | MAGIC | LEGENDARY | MYTHIC | DIVINE

definition all_item_types :: "ItemType list" where
  \<comment> \<open>\<open>list(ItemType)\<close>, in declaration order\<close>
  "all_item_types = [SWORD, SHIELD, AXE, BOW, SPEAR, WAND, DAGGER, KNIFE, HAMMER, STAFF, MACE,
     CROSSBOW, GREATSWORD, HALBERD, KATANA, SCYTHE, HELMET, CHESTPLATE, LEGGINGS, GAUNTLETS, BOOTS]"

fun type_value :: "ItemType \<Rightarrow> string" where
  "type_value SWORD = ''Sword''" | "type_value SHIELD = ''Shield''" | "type_value AXE = ''Axe''"
| "type_value BOW = ''Bow''" | "type_value SPEAR = ''Spear''" | "type_value WAND = ''Wand''"
| "type_value DAGGER = ''Dagger''" | "type_value KNIFE = ''Knife''"
| "type_value HAMMER = ''Hammer''" | "type_value STAFF = ''Staff''" | "type_value MACE = ''Mace''"
| "type_value CROSSBOW = ''Crossbow''" | "type_value GREATSWORD = ''Greatsword''"
| "type_value HALBERD = ''Halberd''" | "type_value KATANA = ''Katana''"
| "type_value SCYTHE = ''Scythe''" | "type_value HELMET = ''Helmet''"
| "type_value CHESTPLATE = ''Chestplate''" | "type_value LEGGINGS = ''Leggings''"
| "type_value GAUNTLETS = ''Gauntlets''" | "type_value BOOTS = ''Boots''"

fun get_stat_range :: "ItemRarity \<Rightarrow> int \<times> int" where
  "get_stat_range COMMON = (1, 9)"
| "get_stat_range UNCOMMON = (10, 19)"
| "get_stat_range RARE = (20, 29)"
| "get_stat_range MAGIC = (30, 39)"
| "get_stat_range LEGENDARY = (40, 44)"
| "get_stat_range MYTHIC = (45, 49)"
| "get_stat_range DIVINE = (50, 50)"

fun get_material_tier :: "ItemRarity \<Rightarrow> string" where
  "get_material_tier r =
     (if r \<in> set [COMMON, UNCOMMON] then ''scrap''
      else if r \<in> set [RARE, MAGIC] then ''dust''
      else ''essence'')"

record Item =
  item_id :: int
  owner_id :: int
  item_name :: string
  item_type :: ItemType
  item_value :: int
  damage :: int
  armor :: int
  hand :: ItemHand
  equipped :: bool
  health_bonus :: int
  speed_bonus :: int
  luck_bonus :: rat
  crit_bonus :: rat
  magic_bonus :: int
  slot_type :: "string option"
  upgrade_level :: int

definition get_upgrade_multiplier :: "Item \<Rightarrow> rat" where
  \<comment> \<open>\<open>1.0 + (0.05 * self.upgrade_level)\<close>\<close>
  "get_upgrade_multiplier i = fadd 1 (fmul (fl (5 / 100)) (to_float (upgrade_level i)))"

definition effective_damage :: "Item \<Rightarrow> int" where
  "effective_damage i = py_int (fmul (to_float (damage i)) (get_upgrade_multiplier i))"

definition effective_armor :: "Item \<Rightarrow> int" where
  "effective_armor i = py_int (fmul (to_float (armor i)) (get_upgrade_multiplier i))"

definition effective_health_bonus :: "Item \<Rightarrow> int" where
  "effective_health_bonus i = py_int (fmul (to_float (health_bonus i)) (get_upgrade_multiplier i))"

definition effective_speed_bonus :: "Item \<Rightarrow> int" where
  "effective_speed_bonus i = py_int (fmul (to_float (speed_bonus i)) (get_upgrade_multiplier i))"

definition effective_luck_bonus :: "Item \<Rightarrow> rat" where
  "effective_luck_bonus i = fmul (luck_bonus i) (get_upgrade_multiplier i)"

definition effective_crit_bonus :: "Item \<Rightarrow> rat" where
  "effective_crit_bonus i = fmul (crit_bonus i) (get_upgrade_multiplier i)"

definition effective_magic_bonus :: "Item \<Rightarrow> int" where
  "effective_magic_bonus i = py_int (fmul (to_float (magic_bonus i)) (get_upgrade_multiplier i))"

definition stat_total :: "Item \<Rightarrow> int" where
  "stat_total i = damage i + armor i + health_bonus i + speed_bonus i
     + py_int (fmul (luck_bonus i) 100) + py_int (fmul (crit_bonus i) 100) + magic_bonus i"

definition rarity :: "Item \<Rightarrow> ItemRarity" where
  "rarity i = (let tot = stat_total i in
     if tot \<ge> 50 then DIVINE
     else if tot \<ge> 45 then MYTHIC
     else if tot \<ge> 40 then LEGENDARY
     else if tot \<ge> 30 then MAGIC
     else if tot \<ge> 20 then RARE
     else if tot \<ge> 10 then UNCOMMON
     else COMMON)"


subsection \<open>The item generator\<close>

definition DAMAGE_PREFIXES :: "string list" where
  "DAMAGE_PREFIXES = [''Sharp'', ''Deadly'', ''Vicious'', ''Brutal'', ''Savage'',
     ''Piercing'', ''Slashing'', ''Crushing'', ''Devastating'',
     ''Bloodthirsty'', ''Merciless'', ''Cruel'', ''Fierce'']"

definition ARMOR_PREFIXES :: "string list" where
  "ARMOR_PREFIXES = [''Sturdy'', ''Fortified'', ''Hardened'', ''Protective'',
     ''Defensive'', ''Guardian'', ''Shielding'', ''Warding'',
     ''Impenetrable'', ''Unbreaking'', ''Stalwart'', ''Resolute'']"

definition MIXED_PREFIXES :: "string list" where
  "MIXED_PREFIXES = [''Balanced'', ''Versatile'', ''Adaptive'', ''Dynamic'',
     ''Harmonious'', ''Unified'', ''Complete'', ''Perfect'']"

definition LEGENDARY_PREFIXES :: "string list" where
  "LEGENDARY_PREFIXES = [''Ancient'', ''Mythical'', ''Legendary'', ''Epic'', ''Divine'',
     ''Celestial'', ''Infernal'', ''Eternal'', ''Immortal'',
     ''Primordial'', ''Forgotten'', ''Lost'', ''Sacred'']"

definition NAME_SUFFIXES :: "string list" where
  "NAME_SUFFIXES = [''of Power'', ''of Legends'', ''of the Gods'', ''of Eternity'',
     ''of Destruction'', ''of Protection'', ''of the Ancients'']"

fun BASE_NAMES :: "ItemType \<Rightarrow> string list" where
  "BASE_NAMES SWORD = [''Blade'', ''Edge'', ''Sword'', ''Saber'', ''Cutlass'']"
| "BASE_NAMES AXE = [''Axe'', ''Hatchet'', ''Cleaver'', ''Chopper'']"
| "BASE_NAMES HAMMER = [''Hammer'', ''Maul'', ''Mallet'', ''Crusher'']"
| "BASE_NAMES BOW = [''Bow'', ''Longbow'', ''Shortbow'', ''Recurve'']"
| "BASE_NAMES STAFF = [''Staff'', ''Rod'', ''Scepter'', ''Cane'']"
| "BASE_NAMES SHIELD = [''Shield'', ''Buckler'', ''Aegis'', ''Guard'']"
| "BASE_NAMES DAGGER = [''Dagger'', ''Knife'', ''Stiletto'', ''Dirk'']"
| "BASE_NAMES SPEAR = [''Spear'', ''Pike'', ''Lance'', ''Javelin'']"
| "BASE_NAMES WAND = [''Wand'', ''Focus'', ''Catalyst'', ''Channel'']"
| "BASE_NAMES MACE = [''Mace'', ''Morningstar'', ''Flail'', ''Club'']"
| "BASE_NAMES KNIFE = [''Knife'', ''Blade'', ''Cutter'', ''Razor'']"
| "BASE_NAMES CROSSBOW = [''Crossbow'', ''Arbalest'', ''Ballista'']"
| "BASE_NAMES GREATSWORD = [''Greatsword'', ''Claymore'', ''Zweihander'']"
| "BASE_NAMES HALBERD = [''Halberd'', ''Poleaxe'', ''Partisan'']"
| "BASE_NAMES KATANA = [''Katana'', ''Wakizashi'', ''Nodachi'']"
| "BASE_NAMES SCYTHE = [''Scythe'', ''Reaper'', ''Harvester'']"
| "BASE_NAMES HELMET = [''Helmet'', ''Crown'', ''Circlet'', ''Helm'', ''Coif'']"
| "BASE_NAMES CHESTPLATE = [''Chestplate'', ''Breastplate'', ''Cuirass'', ''Vest'', ''Mail'']"
| "BASE_NAMES LEGGINGS = [''Leggings'', ''Greaves'', ''Pants'', ''Chausses'', ''Legguards'']"
| "BASE_NAMES GAUNTLETS = [''Gauntlets'', ''Gloves'', ''Mittens'', ''Handguards'', ''Bracers'']"
| "BASE_NAMES BOOTS = [''Boots'', ''Shoes'', ''Sabatons'', ''Footguards'', ''Treads'']"

fun get_slot_for_type :: "ItemType \<Rightarrow> string" where
  "get_slot_for_type SHIELD = ''shield''"
| "get_slot_for_type HELMET = ''head''"
| "get_slot_for_type CHESTPLATE = ''chest''"
| "get_slot_for_type LEGGINGS = ''legs''"
| "get_slot_for_type GAUNTLETS = ''hands''"
| "get_slot_for_type BOOTS = ''feet''"
| "get_slot_for_type _ = ''weapon''"

definition get_hand_for_type :: "ItemType \<Rightarrow> ItemHand" where
  "get_hand_for_type t =
     (if t \<in> set [GREATSWORD, BOW, CROSSBOW, STAFF, HALBERD, SCYTHE] then BOTH
      else if t \<in> set [SHIELD] then LEFT
      else ANY)"

text \<open>
  \<open>get_type_stats\<close> returns a dict from stat name to ratio; a dict iterates in insertion
  order, so it is an association list. The ratios are float literals. Every item type is a
  key of one of the two tables, so the default \<open>{'damage': 0.5, 'armor': 0.5}\<close> is never
  returned.
\<close>

fun get_type_stats :: "ItemType \<Rightarrow> (string \<times> rat) list" where
  "get_type_stats SWORD = [(''damage'', fl (8/10)), (''armor'', fl (2/10))]"
| "get_type_stats AXE = [(''damage'', fl (9/10)), (''armor'', fl (1/10))]"
| "get_type_stats DAGGER = [(''damage'', fl (85/100)), (''armor'', fl (15/100))]"
| "get_type_stats SPEAR = [(''damage'', fl (75/100)), (''armor'', fl (25/100))]"
| "get_type_stats KATANA = [(''damage'', fl (9/10)), (''armor'', fl (1/10))]"
| "get_type_stats SCYTHE = [(''damage'', fl (95/100)), (''armor'', fl (5/100))]"
| "get_type_stats HAMMER = [(''damage'', fl (6/10)), (''armor'', fl (4/10))]"
| "get_type_stats MACE = [(''damage'', fl (65/100)), (''armor'', fl (35/100))]"
| "get_type_stats KNIFE = [(''damage'', fl (7/10)), (''armor'', fl (3/10))]"
| "get_type_stats BOW = [(''damage'', fl (85/100)), (''armor'', fl (15/100))]"
| "get_type_stats CROSSBOW = [(''damage'', fl (9/10)), (''armor'', fl (1/10))]"
| "get_type_stats WAND = [(''damage'', fl (8/10)), (''armor'', fl (2/10))]"
| "get_type_stats STAFF = [(''damage'', fl (7/10)), (''armor'', fl (3/10))]"
| "get_type_stats SHIELD = [(''damage'', fl (1/10)), (''armor'', fl (9/10))]"
| "get_type_stats GREATSWORD = [(''damage'', fl (85/100)), (''armor'', fl (15/100))]"
| "get_type_stats HALBERD = [(''damage'', fl (8/10)), (''armor'', fl (2/10))]"
| "get_type_stats HELMET =
     [(''armor'', fl (4/10)), (''luck'', fl (3/10)), (''magic'', fl (2/10)), (''health'', fl (1/10))]"
| "get_type_stats CHESTPLATE =
     [(''armor'', fl (5/10)), (''health'', fl (4/10)), (''speed'', fl (1/10))]"
| "get_type_stats LEGGINGS =
     [(''armor'', fl (6/10)), (''health'', fl (3/10)), (''speed'', fl (1/10))]"
| "get_type_stats GAUNTLETS =
     [(''armor'', fl (3/10)), (''crit'', fl (4/10)), (''speed'', fl (2/10)), (''magic'', fl (1/10))]"
| "get_type_stats BOOTS =
     [(''armor'', fl (4/10)), (''speed'', fl (4/10)), (''luck'', fl (2/10))]"

record stats =
  st_damage :: int
  st_armor :: int
  st_health_bonus :: int
  st_speed_bonus :: int
  st_luck_bonus :: rat
  st_crit_bonus :: rat
  st_magic_bonus :: int

definition initial_stats :: stats where
  "initial_stats = \<lparr>st_damage = 0, st_armor = 0, st_health_bonus = 0, st_speed_bonus = 0,
     st_luck_bonus = 0, st_crit_bonus = 0, st_magic_bonus = 0\<rparr>"

definition allocate :: "int \<Rightarrow> stats \<Rightarrow> string \<times> rat \<Rightarrow> stats" where
  \<comment> \<open>one iteration of \<open>for stat, ratio in stat_ratios.items()\<close>\<close>
  "allocate tot s kv = (let stat = fst kv; ratio = snd kv;
       allocated_points = py_int (fmul (to_float tot) ratio) in
     if stat = ''damage'' then s\<lparr>st_damage := allocated_points\<rparr>
     else if stat = ''armor'' then s\<lparr>st_armor := allocated_points\<rparr>
     else if stat = ''health'' then s\<lparr>st_health_bonus := allocated_points\<rparr>
     else if stat = ''speed'' then s\<lparr>st_speed_bonus := allocated_points\<rparr>
     else if stat = ''luck'' then s\<lparr>st_luck_bonus := fdiv (to_float allocated_points) 100\<rparr>
     else if stat = ''crit'' then s\<lparr>st_crit_bonus := fdiv (to_float allocated_points) 100\<rparr>
     else if stat = ''magic'' then s\<lparr>st_magic_bonus := allocated_points\<rparr>
     else s)"

definition distribute :: "int \<Rightarrow> (string \<times> rat) list \<Rightarrow> stats" where
  \<comment> \<open>the distribution loop, written out twice in the source (in \<open>generate_item\<close> and in
     \<open>reroll_item\<close>) with the same body\<close>
  "distribute tot stat_ratios = foldl (allocate tot) initial_stats stat_ratios"

definition generate_name :: "ItemType \<Rightarrow> int \<Rightarrow> int \<Rightarrow> int \<Rightarrow> rng \<Rightarrow> string rand" where
  "generate_name t dmg arm tot g =
     bind_r (if tot \<ge> 40 then choice LEGENDARY_PREFIXES g
             else if dmg > arm * 2 then choice DAMAGE_PREFIXES g
             else if arm > dmg * 2 then choice ARMOR_PREFIXES g
             else choice MIXED_PREFIXES g) (\<lambda>prefix g1.
     bind_r (choice (BASE_NAMES t) g1) (\<lambda>base_name g2.
     if tot \<ge> 45 then
       bind_r (choice NAME_SUFFIXES g2) (\<lambda>suffix g3.
         Inr (prefix @ '' '' @ base_name @ '' '' @ suffix, g3))
     else Inr (prefix @ '' '' @ base_name, g2)))"

fun stat_ranges :: "ItemRarity \<Rightarrow> int \<times> int" where
  \<comment> \<open>the table local to \<open>generate_item\<close>\<close>
  "stat_ranges COMMON = (1, 9)"
| "stat_ranges UNCOMMON = (10, 19)"
| "stat_ranges RARE = (20, 29)"
| "stat_ranges MAGIC = (30, 39)"
| "stat_ranges LEGENDARY = (40, 44)"
| "stat_ranges MYTHIC = (45, 49)"
| "stat_ranges DIVINE = (50, 50)"

definition generate_item ::
  "int \<Rightarrow> int \<Rightarrow> int \<Rightarrow> ItemType option \<Rightarrow> ItemRarity option \<Rightarrow> rng \<Rightarrow> Item rand" where
  "generate_item owner min_stat max_stat item_type_opt rarity_opt g =
     bind_r (case item_type_opt of None \<Rightarrow> choice all_item_types g | Some t \<Rightarrow> Inr (t, g))
       (\<lambda>t g1.
     let (min_stat', max_stat') =
           (case rarity_opt of None \<Rightarrow> (min_stat, max_stat) | Some r \<Rightarrow> stat_ranges r) in
     bind_r (randint (max 4 min_stat') max_stat' g1) (\<lambda>total_stats g2.
     let s = distribute total_stats (get_type_stats t) in
     bind_r (generate_name t (st_damage s) (st_armor s) total_stats g2) (\<lambda>name g3.
     bind_r (randint 80 120 g3) (\<lambda>m g4.
     Inr (\<lparr>item_id = 0, owner_id = owner, item_name = name, item_type = t,
            item_value = total_stats * m, damage = st_damage s, armor = st_armor s,
            hand = get_hand_for_type t, equipped = False,
            health_bonus = st_health_bonus s, speed_bonus = st_speed_bonus s,
            luck_bonus = st_luck_bonus s, crit_bonus = st_crit_bonus s,
            magic_bonus = st_magic_bonus s, slot_type = Some (get_slot_for_type t),
            upgrade_level = 0\<rparr>, g4)))))"


definition generate_random_equipment :: "int \<Rightarrow> int \<Rightarrow> int \<Rightarrow> rng \<Rightarrow> Item rand" where
  "generate_random_equipment owner min_stat max_stat g =
     (let (u, g1) = random_py g in
      bind_r (if u < fl (6/10)
              then choice [SWORD, AXE, HAMMER, MACE, DAGGER, KNIFE, SPEAR, WAND, STAFF, BOW,
                     CROSSBOW, GREATSWORD, HALBERD, KATANA, SCYTHE, SHIELD] g1
              else choice [HELMET, CHESTPLATE, LEGGINGS, GAUNTLETS, BOOTS] g1) (\<lambda>t g2.
      generate_item owner min_stat max_stat (Some t) None g2))"

record rerolled =
  new_stats :: stats
  new_name :: string
  new_value :: int

definition reroll_item :: "Item \<Rightarrow> rng \<Rightarrow> rerolled rand" where
  "reroll_item item g =
     (let current_rarity = rarity item;
          (min_stat, max_stat) = get_stat_range current_rarity in
      bind_r (randint min_stat max_stat g) (\<lambda>new_total g1.
      let s = distribute new_total (get_type_stats (item_type item)) in
      bind_r (generate_name (item_type item) (st_damage s) (st_armor s) new_total g1) (\<lambda>name g2.
      bind_r (randint 80 120 g2) (\<lambda>m g3.
      Inr (\<lparr>new_stats = s, new_name = name, new_value = new_total * m\<rparr>, g3)))))"


section \<open>The blacksmith (\<open>cogs/blacksmith.py\<close>)\<close>

text \<open>
  The blacksmith works on inventory rows as the store returns them: dicts. The keys it reads
  with \<open>item.get(key, default)\<close> may be absent and are optional fields here. The row's
  \<open>type\<close> and \<open>hand\<close> columns hold the values of the two enums and are kept as the enum
  members they denote (an empty \<open>hand\<close> is \<open>None\<close>).
\<close>

record item_row =
  row_id :: int
  row_owner :: int
  row_name :: string
  row_type :: ItemType
  row_value :: int
  row_damage :: int
  row_armor :: int
  row_hand :: "ItemHand option"
  row_equipped :: bool
  row_health_bonus :: "int option"
  row_speed_bonus :: "int option"
  row_luck_bonus :: "rat option"
  row_crit_bonus :: "rat option"
  row_magic_bonus :: "int option"
  row_slot_type :: "string option"
  row_upgrade_level :: "int option"

definition dict_get :: "'a option \<Rightarrow> 'a \<Rightarrow> 'a" where
  \<comment> \<open>\<open>d.get(key, default)\<close> for a key whose presence is the option\<close>
  "dict_get v d = (case v of None \<Rightarrow> d | Some x \<Rightarrow> x)"

definition get_item_rarity :: "item_row \<Rightarrow> ItemRarity" where
  "get_item_rarity item = (let tot = row_damage item + row_armor item
         + dict_get (row_health_bonus item) 0 + dict_get (row_speed_bonus item) 0
         + py_int (fmul (dict_get (row_luck_bonus item) 0) 100)
         + py_int (fmul (dict_get (row_crit_bonus item) 0) 100)
         + dict_get (row_magic_bonus item) 0 in
     if tot \<ge> 50 then DIVINE
     else if tot \<ge> 45 then MYTHIC
     else if tot \<ge> 40 then LEGENDARY
     else if tot \<ge> 30 then MAGIC
     else if tot \<ge> 20 then RARE
     else if tot \<ge> 10 then UNCOMMON
     else COMMON)"

definition item_obj :: "item_row \<Rightarrow> Item" where
  \<comment> \<open>the \<open>Item(...)\<close> that \<open>reforge\<close> builds from a row\<close>
  "item_obj item = \<lparr>item_id = row_id item, owner_id = row_owner item, item_name = row_name item,
     item_type = row_type item, item_value = row_value item, damage = row_damage item,
     armor = row_armor item, hand = (case row_hand item of Some h \<Rightarrow> h | None \<Rightarrow> ANY),
     equipped = row_equipped item,
     health_bonus = dict_get (row_health_bonus item) 0,
     speed_bonus = dict_get (row_speed_bonus item) 0,
     luck_bonus = dict_get (row_luck_bonus item) 0,
     crit_bonus = dict_get (row_crit_bonus item) 0,
     magic_bonus = dict_get (row_magic_bonus item) 0,
     slot_type = row_slot_type item,
     upgrade_level = dict_get (row_upgrade_level item) 0\<rparr>"

definition reforge_row :: "item_row \<Rightarrow> rng \<Rightarrow> item_row rand" where
  \<comment> \<open>\<open>reforge\<close> after the confirmation: the reroll and the \<open>UPDATE inventory\<close> of the row
     (the upgrade level and every other column stay)\<close>
  "reforge_row item g =
     bind_r (reroll_item (item_obj item) g) (\<lambda>r g'.
       Inr (item\<lparr>row_name := new_name r, row_damage := st_damage (new_stats r),
              row_armor := st_armor (new_stats r), row_value := new_value r,
              row_health_bonus := Some (st_health_bonus (new_stats r)),
              row_speed_bonus := Some (st_speed_bonus (new_stats r)),
              row_luck_bonus := Some (st_luck_bonus (new_stats r)),
              row_crit_bonus := Some (st_crit_bonus (new_stats r)),
              row_magic_bonus := Some (st_magic_bonus (new_stats r))\<rparr>, g'))"

definition upgrade_preview :: "item_row \<Rightarrow> (int \<times> int) \<times> (int \<times> int)" where
  \<comment> \<open>\<open>upgrade\<close>: the effective damage and armor at the current and at the target level,
     computed in the command itself with the formula of \<open>Item\<close>\<close>
  "upgrade_preview item =
     (let current_level = dict_get (row_upgrade_level item) 0;
          target_level = current_level + 1;
          multiplier = fadd 1 (fmul (fl (5 / 100)) (to_float current_level));
          new_multiplier = fadd 1 (fmul (fl (5 / 100)) (to_float target_level))
      in ((py_int (fmul (to_float (row_damage item)) multiplier),
           py_int (fmul (to_float (row_armor item)) multiplier)),
          (py_int (fmul (to_float (row_damage item)) new_multiplier),
           py_int (fmul (to_float (row_armor item)) new_multiplier))))"

definition upgrade_allowed :: "item_row \<Rightarrow> bool" where
  \<comment> \<open>\<open>upgrade\<close> refuses an item whose level is already 10\<close>
  "upgrade_allowed item = (\<not> dict_get (row_upgrade_level item) 0 \<ge> 10)"

fun tier_index :: "ItemRarity \<Rightarrow> nat" where
  \<comment> \<open>the position of a tier in the declaration of \<open>ItemRarity\<close>\<close>
  "tier_index COMMON = 0"
| "tier_index UNCOMMON = 1"
| "tier_index RARE = 2"
| "tier_index MAGIC = 3"
| "tier_index LEGENDARY = 4"
| "tier_index MYTHIC = 5"
| "tier_index DIVINE = 6"

definition plain_item :: "ItemType \<Rightarrow> int \<Rightarrow> int \<Rightarrow> Item" where
  \<comment> \<open>an item with the given type, damage and armor and no other stat, for concrete inputs\<close>
  "plain_item t d a = \<lparr>item_id = 1, owner_id = 1, item_name = ''Item'', item_type = t,
     item_value = 100, damage = d, armor = a, hand = get_hand_for_type t, equipped = False,
     health_bonus = 0, speed_bonus = 0, luck_bonus = 0, crit_bonus = 0, magic_bonus = 0,
     slot_type = Some (get_slot_for_type t), upgrade_level = 0\<rparr>"

definition plain_row :: "ItemType \<Rightarrow> int \<Rightarrow> int \<Rightarrow> item_row" where
  \<comment> \<open>the inventory row of such an item, without the optional bonus keys\<close>
  "plain_row t d a = \<lparr>row_id = 1, row_owner = 1, row_name = ''Item'', row_type = t,
     row_value = 100, row_damage = d, row_armor = a, row_hand = Some (get_hand_for_type t),
     row_equipped = False, row_health_bonus = None, row_speed_bonus = None,
     row_luck_bonus = None, row_crit_bonus = None, row_magic_bonus = None,
     row_slot_type = Some (get_slot_for_type t), row_upgrade_level = None\<rparr>"

subsection \<open>Notions used to state the properties of the upgrade transform\<close>

definition level_multiplier :: "int \<Rightarrow> rat" where
  \<comment> \<open>the multiplier \<open>1.0 + (0.05 * level)\<close> as a function of the level\<close>
  "level_multiplier l = fadd 1 (fmul (fl (5 / 100)) (to_float l))"

definition scaled :: "int \<Rightarrow> rat \<Rightarrow> int" where
  \<comment> \<open>\<open>int(base * multiplier)\<close>\<close>
  "scaled b m = py_int (fmul (to_float b) m)"

definition base_ints :: "Item \<Rightarrow> int list" where
  "base_ints i = [damage i, armor i, health_bonus i, speed_bonus i, magic_bonus i]"

definition effective_ints :: "Item \<Rightarrow> int list" where
  "effective_ints i = [effective_damage i, effective_armor i, effective_health_bonus i,
     effective_speed_bonus i, effective_magic_bonus i]"

definition base_floats :: "Item \<Rightarrow> rat list" where
  "base_floats i = [luck_bonus i, crit_bonus i]"

definition effective_floats :: "Item \<Rightarrow> rat list" where
  "effective_floats i = [effective_luck_bonus i, effective_crit_bonus i]"

subsection \<open>Notions used to state the properties of the generator\<close>

definition result :: "'a rand \<Rightarrow> 'a option" where
  \<comment> \<open>the value a randomised computation returns, \<open>None\<close> when it raises\<close>
  "result m = (case m of Inl e \<Rightarrow> None | Inr (x, g) \<Rightarrow> Some x)"




section \<open>Adventure resolution (\<open>cogs/adventure.py\<close>)\<close>

text \<open>
  The rows that \<open>db.get_character\<close> and \<open>db.get_equipped_items\<close> return are arguments of the
  functions below: the character row with the columns the code reads, and the list of the
  equipped inventory rows of the character.
\<close>

record char_data =
  cd_user_id :: int
  cd_name :: string
  cd_level :: int
  cd_xp :: int
  cd_money :: int
  cd_luck :: rat
  cd_completed :: int

definition py_min :: "rat \<Rightarrow> rat \<Rightarrow> rat" where
  \<comment> \<open>\<open>min(a, b)\<close>: the first argument unless the second is smaller\<close>
  "py_min a b = (if b < a then b else a)"

definition calculate_adventure_power :: "item_row list \<Rightarrow> int" where
  "calculate_adventure_power items = sum_list (map (\<lambda>item. row_damage item + row_armor item) items)"

definition success_chance :: "char_data \<Rightarrow> int \<Rightarrow> item_row list \<Rightarrow> rat" where
  \<comment> \<open>\<open>complete_adventure\<close>, "Calculate success": the int terms are added first, then the float\<close>
  "success_chance cd difficulty items =
     (let equipment_bonus = calculate_adventure_power items;
          base_chance = 60;
          level_bonus = max 0 (cd_level cd - difficulty) * 5;
          equipment_chance = min 20 (equipment_bonus div 10);
          luck_bonus = fmul (fsub (cd_luck cd) 1) 10
      in py_min 95 (fadd (to_float (base_chance + level_bonus + equipment_chance)) luck_bonus))"

definition adventure_success :: "char_data \<Rightarrow> int \<Rightarrow> item_row list \<Rightarrow> rng \<Rightarrow> bool \<times> rng" where
  \<comment> \<open>\<open>success = random.random() < (success_chance / 100)\<close>\<close>
  "adventure_success cd difficulty items g =
     (let (u, g') = random_py g in (u < fdiv (success_chance cd difficulty items) 100, g'))"

definition novice :: char_data where
  \<comment> \<open>a level-1 character with luck 1.0, for concrete inputs\<close>
  "novice = \<lparr>cd_user_id = 1, cd_name = ''Novice'', cd_level = 1, cd_xp = 0, cd_money = 0,
     cd_luck = 1, cd_completed = 0\<rparr>"

section \<open>Blessings (\<open>cogs/religion.py\<close>)\<close>

record blessing =
  bl_user_id :: int
  bl_effect :: string
  bl_value :: rat
  bl_expires_at :: int

record bonuses =
  b_luck :: rat
  b_xp_mult :: rat
  b_gold_mult :: rat
  b_battle_mult :: rat
  b_protection :: bool
  b_adventure_success :: bool

definition no_blessing :: bonuses where
  \<comment> \<open>the dict \<open>active\<close> before any blessing is applied\<close>
  "no_blessing = \<lparr>b_luck = 1, b_xp_mult = 1, b_gold_mult = 1, b_battle_mult = 1,
     b_protection = False, b_adventure_success = False\<rparr>"

definition apply_blessing :: "bonuses \<Rightarrow> blessing \<Rightarrow> bonuses" where
  \<comment> \<open>one iteration of \<open>for blessing in blessings\<close>\<close>
  "apply_blessing active b = (let effect = bl_effect b; v = bl_value b in
     if effect \<in> set [''luck'', ''xp_mult'', ''gold_mult'', ''battle_mult''] then
       (if effect = ''luck'' then active\<lparr>b_luck := fadd (b_luck active) v\<rparr>
        else if effect = ''xp_mult'' then active\<lparr>b_xp_mult := max (b_xp_mult active) v\<rparr>
        else if effect = ''gold_mult'' then active\<lparr>b_gold_mult := max (b_gold_mult active) v\<rparr>
        else active\<lparr>b_battle_mult := max (b_battle_mult active) v\<rparr>)
     else if effect \<in> set [''protection'', ''adventure_success''] then
       (if effect = ''protection'' then active\<lparr>b_protection := True\<rparr>
        else active\<lparr>b_adventure_success := True\<rparr>)
     else active)"

definition get_active_blessings :: "int \<Rightarrow> int \<Rightarrow> blessing list \<Rightarrow> bonuses \<times> blessing list" where
  \<comment> \<open>the \<open>SELECT\<close> of the unexpired blessings of the user, the \<open>DELETE\<close> of the expired
     ones, and the fold; the table \<open>divine_blessings\<close> is passed and returned\<close>
  "get_active_blessings user_id current_time table =
     (let blessings = filter (\<lambda>b. bl_user_id b = user_id \<and> bl_expires_at b > current_time) table;
          table' = filter (\<lambda>b. \<not> (bl_user_id b = user_id \<and> bl_expires_at b \<le> current_time)) table
      in (foldl apply_blessing no_blessing blessings, table'))"

section \<open>Battle power and battles (\<open>cogs/combat.py\<close>, \<open>cogs/autoplay.py\<close>)\<close>

definition float_sum :: "rat list \<Rightarrow> rat" where
  \<comment> \<open>\<open>sum(...)\<close> of floats: left to right from 0\<close>
  "float_sum xs = foldl fadd 0 xs"

definition combat_calculate_battle_power ::
  "char_data \<Rightarrow> item_row list \<Rightarrow> bool \<Rightarrow> int \<Rightarrow> blessing list \<Rightarrow> int \<times> blessing list" where
  \<comment> \<open>\<open>CombatCog.calculate_battle_power\<close>; \<open>religion_cog\<close> tells whether the religion cog is
     loaded, \<open>current_time\<close> is the clock read by \<open>get_active_blessings\<close>\<close>
  "combat_calculate_battle_power cd items religion_cog current_time table =
     (let base_power = cd_level cd * 5;
          equipment_power = sum_list (map (\<lambda>item. row_damage item + row_armor item) items);
          health = sum_list (map (\<lambda>item. dict_get (row_health_bonus item) 0) items);
          speed = sum_list (map (\<lambda>item. dict_get (row_speed_bonus item) 0) items);
          luck = float_sum (map (\<lambda>item. dict_get (row_luck_bonus item) 0) items);
          crit = float_sum (map (\<lambda>item. dict_get (row_crit_bonus item) 0) items);
          magic = sum_list (map (\<lambda>item. dict_get (row_magic_bonus item) 0) items);
          equipment_power' = equipment_power
            + (health + speed + py_int (fmul luck 100) + py_int (fmul crit 100) + magic);
          class_bonus = cd_level cd * 2;
          (luck_modifier, battle_multiplier, table') =
            (if religion_cog then
               (let (blessing_bonuses, t') = get_active_blessings (cd_user_id cd) current_time table
                in (fadd (cd_luck cd) (b_luck blessing_bonuses), b_battle_mult blessing_bonuses, t'))
             else (cd_luck cd, 1, table));
          tot = py_int (fmul (fmul (to_float (base_power + equipment_power' + class_bonus))
                  luck_modifier) battle_multiplier)
      in (max 1 tot, table'))"

record char_ref =
  cr_user_id :: int
  cr_name :: string
  cr_level :: int

definition autoplay_calculate_battle_power ::
  "char_ref \<Rightarrow> item_row list \<Rightarrow> bool \<Rightarrow> int \<Rightarrow> blessing list \<Rightarrow> rng
     \<Rightarrow> (int \<times> blessing list) rand" where
  \<comment> \<open>\<open>AutoPlayCog.calculate_battle_power\<close>: the power includes a draw of its own\<close>
  "autoplay_calculate_battle_power char char_items religion_cog current_time table g =
     bind_r (randint (- 20) 20 g) (\<lambda>d g'.
       let base_power = cr_level char * 10
             + sum_list (map (\<lambda>item. row_damage item + row_armor item) char_items) + d
       in if religion_cog then
            (let (blessing_bonuses, table') = get_active_blessings (cr_user_id char) current_time table;
                 battle_multiplier = b_battle_mult blessing_bonuses
             in Inr ((py_int (fmul (to_float base_power) battle_multiplier), table'), g'))
          else Inr ((base_power, table), g'))"

definition armor_bonuses :: "item_row list \<Rightarrow> int" where
  \<comment> \<open>\<open>char1_armor_bonuses\<close> of \<open>AutoPlayCog.simulate_battle\<close>\<close>
  "armor_bonuses items = sum_list (map (\<lambda>item.
       dict_get (row_health_bonus item) 0 + dict_get (row_speed_bonus item) 0
       + py_int (fmul (dict_get (row_luck_bonus item) 0) 100)
       + py_int (fmul (dict_get (row_crit_bonus item) 0) 100)
       + dict_get (row_magic_bonus item) 0) items)"

record battle_result =
  winner :: char_ref
  loser :: char_ref
  power_diff :: int

definition autoplay_simulate_battle ::
  "char_ref \<Rightarrow> char_ref \<Rightarrow> item_row list \<Rightarrow> item_row list \<Rightarrow> rng \<Rightarrow> battle_result rand" where
  \<comment> \<open>\<open>AutoPlayCog.simulate_battle\<close>, the automatic 1v1\<close>
  "autoplay_simulate_battle char1 char2 char1_items char2_items g =
     bind_r (randint (- 20) 20 g) (\<lambda>d1 g1.
     bind_r (randint (- 20) 20 g1) (\<lambda>d2 g2.
       let char1_equipment = sum_list (map (\<lambda>item. row_damage item + row_armor item) char1_items);
           char1_power = cr_level char1 * 10 + char1_equipment + armor_bonuses char1_items + d1;
           char2_equipment = sum_list (map (\<lambda>item. row_damage item + row_armor item) char2_items);
           char2_power = cr_level char2 * 10 + char2_equipment + armor_bonuses char2_items + d2
       in if char1_power \<ge> char2_power
          then Inr (\<lparr>winner = char1, loser = char2, power_diff = char1_power - char2_power\<rparr>, g2)
          else Inr (\<lparr>winner = char2, loser = char1, power_diff = char2_power - char1_power\<rparr>, g2)))"

definition combat_rolls :: "int \<Rightarrow> int \<Rightarrow> rng \<Rightarrow> (rat \<times> rat) \<times> rng" where
  \<comment> \<open>\<open>CombatCog.simulate_battle\<close>: the two rolls after the jitter and the critical hits\<close>
  "combat_rolls power_1 power_2 g =
     (let (j1, g1) = uniform (fl (8 / 10)) (fl (12 / 10)) g;
          roll1 = fmul (to_float power_1) j1;
          (j2, g2) = uniform (fl (8 / 10)) (fl (12 / 10)) g1;
          roll2 = fmul (to_float power_2) j2;
          (c1, g3) = random_py g2;
          roll1' = (if c1 < fl (1 / 10) then fmul roll1 (fl (15 / 10)) else roll1);
          (c2, g4) = random_py g3;
          roll2' = (if c2 < fl (1 / 10) then fmul roll2 (fl (15 / 10)) else roll2)
      in ((roll1', roll2'), g4))"

definition combat_simulate_battle :: "'u \<times> int \<Rightarrow> 'u \<times> int \<Rightarrow> rng \<Rightarrow> ('u \<times> int \<times> int) \<times> rng" where
  \<comment> \<open>the winner and the two numbers of the battle log\<close>
  "combat_simulate_battle fighter1 fighter2 g =
     (let (user1, power_1) = fighter1; (user2, power_2) = fighter2;
          ((roll1, roll2), g') = combat_rolls power_1 power_2 g;
          winner = (if roll1 > roll2 then user1 else user2)
      in ((winner, py_int roll1, py_int roll2), g'))"

datatype team_battle = Battle3v3 | Battle5v5 | Battle10v10

text \<open>
  \<open>run_3v3_battle\<close>, \<open>run_5v5_battle\<close> and \<open>run_10v10_battle\<close> resolve the battle with the same
  statements and differ in the team size and in three literals: the two bounds of the jitter
  and the coordination penalty.
\<close>

fun team_size :: "team_battle \<Rightarrow> nat" where
  "team_size Battle3v3 = 3"
| "team_size Battle5v5 = 5"
| "team_size Battle10v10 = 10"

fun jitter_bounds :: "team_battle \<Rightarrow> rat \<times> rat" where
  "jitter_bounds Battle3v3 = (fl (85 / 100), fl (115 / 100))"
| "jitter_bounds Battle5v5 = (fl (8 / 10), fl (12 / 10))"
| "jitter_bounds Battle10v10 = (fl (75 / 100), fl (125 / 100))"

fun coordination_penalty :: "team_battle \<Rightarrow> rat" where
  "coordination_penalty Battle3v3 = fl (8 / 10)"
| "coordination_penalty Battle5v5 = fl (75 / 100)"
| "coordination_penalty Battle10v10 = fl (65 / 100)"

definition team_jitter :: "team_battle \<Rightarrow> rng \<Rightarrow> rat \<times> rng" where
  "team_jitter b g = uniform (fst (jitter_bounds b)) (snd (jitter_bounds b)) g"

definition team_rolls :: "team_battle \<Rightarrow> int \<Rightarrow> int \<Rightarrow> rng \<Rightarrow> (rat \<times> rat) \<times> rng" where
  \<comment> \<open>\<open>team_a_roll = team_a_power * random.uniform(lo, hi) * penalty\<close>, then the same for B\<close>
  "team_rolls b team_a_power team_b_power g =
     (let (ja, g1) = team_jitter b g;
          team_a_roll = fmul (fmul (to_float team_a_power) ja) (coordination_penalty b);
          (jb, g2) = team_jitter b g1;
          team_b_roll = fmul (fmul (to_float team_b_power) jb) (coordination_penalty b)
      in ((team_a_roll, team_b_roll), g2))"

fun team_power ::
  "(int \<Rightarrow> item_row list) \<Rightarrow> bool \<Rightarrow> int \<Rightarrow> char_ref list \<Rightarrow> blessing list \<Rightarrow> rng
     \<Rightarrow> (int \<times> blessing list) rand" where
  \<comment> \<open>\<open>sum(self.calculate_battle_power(f) for f in team)\<close>; \<open>items_of\<close> is the read
     \<open>db.get_equipped_items\<close>\<close>
  "team_power items_of cog now [] table g = Inr ((0, table), g)"
| "team_power items_of cog now (f # fs) table g =
     bind_r (autoplay_calculate_battle_power f (items_of (cr_user_id f)) cog now table g)
       (\<lambda>(p, table') g'.
     bind_r (team_power items_of cog now fs table' g') (\<lambda>(ps, table'') g''.
       Inr ((p + ps, table''), g'')))"

definition team_battle_winner ::
  "team_battle \<Rightarrow> (int \<Rightarrow> item_row list) \<Rightarrow> bool \<Rightarrow> int \<Rightarrow> char_ref list \<Rightarrow> char_ref list
     \<Rightarrow> blessing list \<Rightarrow> rng \<Rightarrow> ((char_ref list \<times> char_ref list) \<times> blessing list) rand" where
  \<comment> \<open>from "Calculate team powers" to \<open>winning_team\<close> and \<open>losing_team\<close>\<close>
  "team_battle_winner b items_of cog now team_a team_b table g =
     bind_r (team_power items_of cog now team_a table g) (\<lambda>(team_a_power, table1) g1.
     bind_r (team_power items_of cog now team_b table1 g1) (\<lambda>(team_b_power, table2) g2.
       let ((team_a_roll, team_b_roll), g3) = team_rolls b team_a_power team_b_power g2;
           winning_team = (if team_a_roll > team_b_roll then team_a else team_b);
           losing_team = (if team_a_roll > team_b_roll then team_b else team_a)
       in Inr (((winning_team, losing_team), table2), g3)))"

definition squad :: "int \<Rightarrow> int \<Rightarrow> char_ref list" where
  \<comment> \<open>three characters of one level with consecutive ids, for concrete inputs\<close>
  "squad first_id level =
     [\<lparr>cr_user_id = first_id, cr_name = ''one'', cr_level = level\<rparr>,
      \<lparr>cr_user_id = first_id + 1, cr_name = ''two'', cr_level = level\<rparr>,
      \<lparr>cr_user_id = first_id + 2, cr_name = ''three'', cr_level = level\<rparr>]"

subsection \<open>Notions used to state the properties of the battles\<close>

definition base_power :: "char_ref \<Rightarrow> item_row list \<Rightarrow> int" where
  \<comment> \<open>\<open>char1_power\<close> of \<open>AutoPlayCog.simulate_battle\<close> without its random draw\<close>
  "base_power c its = cr_level c * 10
     + sum_list (map (\<lambda>item. row_damage item + row_armor item) its) + armor_bonuses its"

definition valor :: blessing where
  \<comment> \<open>a battle blessing of user 1 that expires at time 100, for concrete inputs\<close>
  "valor = \<lparr>bl_user_id = 1, bl_effect = ''battle_mult'', bl_value = 3 / 2, bl_expires_at = 100\<rparr>"

definition stale :: blessing where
  \<comment> \<open>a luck blessing of user 1 that expired at time 10\<close>
  "stale = \<lparr>bl_user_id = 1, bl_effect = ''luck'', bl_value = 1 / 2, bl_expires_at = 10\<rparr>"

(*DEFS-END*)

section \<open>Properties of the rounding\<close>

text \<open>
  \<open>ilog2\<close> finds the binade of a positive number; rounding is monotone on the non-negative
  numbers, has relative error at most \<open>2\<^sup>-\<^sup>5\<^sup>3\<close>, and leaves every number with a 53-bit
  significand unchanged.
\<close>

lemma ilog2_bounds:
  assumes "0 < x"
  shows "2 powi (ilog2 x) \<le> x" and "x < 2 powi (ilog2 x + 1)"
proof -
  have "2 powi (ilog2 x) \<le> x \<and> x < 2 powi (ilog2 x + 1)"
  proof (cases "1 \<le> x")
    case True
    define n where "n = \<lfloor>x\<rfloor>"
    have n1: "1 \<le> n" using True by (simp add: n_def le_floor_iff)
    then have npos: "0 < n" by simp
    have b1: "1 \<le> bitlen n" using npos bitlen_eq_zero_iff [of n] bitlen_nonneg [of n] by linarith
    have lo: "(2::int) ^ nat (bitlen n - 1) \<le> n" and hi: "n < 2 ^ nat (bitlen n)"
      using bitlen_bounds [OF npos] by auto
    have il: "ilog2 x = bitlen n - 1" using True by (simp add: ilog2_def n_def)
    have "(2::rat) powi (bitlen n - 1) = 2 ^ nat (bitlen n - 1)"
      using b1 by (simp add: power_int_nonneg_exp)
    also have "\<dots> = of_int (2 ^ nat (bitlen n - 1))" by simp
    also have "\<dots> \<le> of_int n" using lo by (simp only: of_int_le_iff)
    also have "\<dots> \<le> x" by (simp add: n_def)
    finally have A: "2 powi (ilog2 x) \<le> x" by (simp add: il)
    have "n + 1 \<le> 2 ^ nat (bitlen n)" using hi by simp
    then have "(of_int (n + 1) :: rat) \<le> of_int (2 ^ nat (bitlen n))" by (simp only: of_int_le_iff)
    moreover have "x < of_int (n + 1)" unfolding n_def by linarith
    ultimately have "x < of_int ((2::int) ^ nat (bitlen n))" by linarith
    also have "\<dots> = (2::rat) powi (bitlen n)" using b1 by (simp add: power_int_nonneg_exp)
    finally have B: "x < 2 powi (ilog2 x + 1)" by (simp add: il)
    from A B show ?thesis by simp
  next
    case False
    then have x1: "x < 1" by simp
    define y where "y = 1 / x"
    have y1: "1 < y" using assms x1 by (simp add: y_def)
    define m where "m = \<lceil>y\<rceil> - 1"
    have m1: "1 \<le> m" using y1 by (simp add: m_def less_ceiling_iff)
    then have mpos: "0 < m" by simp
    have b1: "1 \<le> bitlen m" using mpos bitlen_eq_zero_iff [of m] bitlen_nonneg [of m] by linarith
    have lo: "(2::int) ^ nat (bitlen m - 1) \<le> m" and hi: "m < 2 ^ nat (bitlen m)"
      using bitlen_bounds [OF mpos] by auto
    have il: "ilog2 x = - bitlen m" using False by (simp add: ilog2_def m_def y_def)
    have my: "of_int m < y" unfolding m_def using ceiling_correct [of y] by simp
    have ym: "y \<le> of_int (m + 1)" unfolding m_def by (simp add: le_of_int_ceiling)
    have "m + 1 \<le> 2 ^ nat (bitlen m)" using hi by simp
    then have "(of_int (m + 1) :: rat) \<le> of_int (2 ^ nat (bitlen m))" by (simp only: of_int_le_iff)
    with ym have "y \<le> of_int ((2::int) ^ nat (bitlen m))" by linarith
    also have "\<dots> = (2::rat) powi (bitlen m)" using b1 by (simp add: power_int_nonneg_exp)
    finally have yhi: "y \<le> 2 powi (bitlen m)" .
    have "(2::rat) powi (bitlen m - 1) = of_int (2 ^ nat (bitlen m - 1))"
      using b1 by (simp add: power_int_nonneg_exp)
    also have "\<dots> \<le> of_int m" using lo by (simp only: of_int_le_iff)
    also have "\<dots> < y" by (rule my)
    finally have ylo: "2 powi (bitlen m - 1) < y" .
    have p1: "0 < (2::rat) powi (bitlen m)" and p2: "0 < (2::rat) powi (bitlen m - 1)" by simp_all
    have A: "2 powi (- bitlen m) \<le> x"
      using yhi p1 assms unfolding y_def power_int_minus_divide
      by (simp add: field_simps)
    have "x < 1 / 2 powi (bitlen m - 1)"
      using ylo p2 assms unfolding y_def by (simp add: field_simps)
    also have "1 / (2::rat) powi (bitlen m - 1) = 2 powi (- bitlen m + 1)"
      by (simp flip: power_int_minus_divide)
    finally have B: "x < 2 powi (- bitlen m + 1)" .
    from A B show ?thesis by (simp add: il)
  qed
  then show "2 powi (ilog2 x) \<le> x" and "x < 2 powi (ilog2 x + 1)" by simp_all
qed

lemma ilog2_unique:
  assumes "2 powi k \<le> x" "x < 2 powi (k + 1)"
  shows "ilog2 x = k"
proof -
  have xpos: "0 < x" using assms(1) zero_less_power_int [of "2::rat" k] by linarith
  note b = ilog2_bounds [OF xpos]
  have "(2::rat) powi k < 2 powi (ilog2 x + 1)" using assms(1) b(2) by linarith
  then have 1: "k < ilog2 x + 1"
    by (metis linorder_not_le one_le_numeral power_int_increasing)
  have "(2::rat) powi (ilog2 x) < 2 powi (k + 1)" using assms(2) b(1) by linarith
  then have 2: "ilog2 x < k + 1"
    by (metis linorder_not_le one_le_numeral power_int_increasing)
  from 1 2 show ?thesis by simp
qed

lemma round_even_of_int [simp]: "round_even (of_int n) = n"
  by (simp add: round_even_def)


lemma round_even_mono:
  assumes "x \<le> y"
  shows "round_even x \<le> round_even y"
proof (cases "\<lfloor>x\<rfloor> = \<lfloor>y\<rfloor>")
  case True
  then show ?thesis using assms by (auto simp: round_even_def Let_def)
next
  case False
  then have "\<lfloor>x\<rfloor> < \<lfloor>y\<rfloor>" using floor_mono [OF assms] by linarith
  moreover have "round_even x \<le> \<lfloor>x\<rfloor> + 1" by (auto simp: round_even_def Let_def)
  moreover have "\<lfloor>y\<rfloor> \<le> round_even y" by (auto simp: round_even_def Let_def)
  ultimately show ?thesis by linarith
qed


lemma fl_0 [simp]: "fl 0 = 0"
  by (simp add: fl_def)

lemma fl_scaled:
  assumes "0 < x"
  defines "s \<equiv> (2::rat) powi (ilog2 x - 52)"
  shows "fl x = of_int (round_even (x / s)) * s" and "0 < s"
    and "2 ^ 52 \<le> x / s" and "x / s < 2 ^ 53"
proof -
  show spos: "0 < s" by (simp add: s_def)
  show "fl x = of_int (round_even (x / s)) * s"
    using assms(1) by (simp add: fl_def s_def Let_def)
  have s_eq: "s = 2 powi (ilog2 x) / 2 ^ 52"
    by (simp add: s_def power_int_diff)
  have "2 ^ 52 * s = 2 powi (ilog2 x)" by (simp add: s_eq)
  then have "2 ^ 52 * s \<le> x" using ilog2_bounds(1) [OF assms(1)] by simp
  then show "2 ^ 52 \<le> x / s" using spos by (simp add: field_simps)
  have "2 ^ 53 * s = 2 powi (ilog2 x + 1)" by (simp add: s_eq power_int_add)
  then have "x < 2 ^ 53 * s" using ilog2_bounds(2) [OF assms(1)] by simp
  then show "x / s < 2 ^ 53" using spos by (simp add: field_simps)
qed

lemma fl_range:
  assumes "0 < x"
  shows "2 powi (ilog2 x) \<le> fl x" and "fl x \<le> 2 powi (ilog2 x + 1)"
proof -
  define s where "s = (2::rat) powi (ilog2 x - 52)"
  note f = fl_scaled [OF assms, folded s_def]
  have s_eq: "s = 2 powi (ilog2 x) / 2 ^ 52"
    by (simp add: s_def power_int_diff)
  have "round_even (of_int (2 ^ 52)) \<le> round_even (x / s)"
    by (rule round_even_mono) (use f(3) in simp)
  then have "(2::int) ^ 52 \<le> round_even (x / s)" by (simp only: round_even_of_int)
  then have "(of_int (2 ^ 52) :: rat) \<le> of_int (round_even (x / s))" by (simp only: of_int_le_iff)
  then have "2 ^ 52 * s \<le> of_int (round_even (x / s)) * s"
    using f(2) by simp
  then show "2 powi (ilog2 x) \<le> fl x" by (simp add: f(1) s_eq)
  have "round_even (x / s) \<le> round_even (of_int (2 ^ 53))"
    by (rule round_even_mono) (use f(4) in simp)
  then have "round_even (x / s) \<le> (2::int) ^ 53" by (simp only: round_even_of_int)
  then have "(of_int (round_even (x / s)) :: rat) \<le> of_int (2 ^ 53)" by (simp only: of_int_le_iff)
  then have "of_int (round_even (x / s)) * s \<le> 2 ^ 53 * s"
    using f(2) by simp
  then show "fl x \<le> 2 powi (ilog2 x + 1)" by (simp add: f(1) s_eq power_int_add)
qed

lemma fl_pos: "0 < x \<Longrightarrow> 0 < fl x"
  using fl_range(1) [of x] zero_less_power_int [of "2::rat" "ilog2 x"] by linarith

lemma fl_nonneg: "0 \<le> x \<Longrightarrow> 0 \<le> fl x"
  using fl_pos [of x] by (cases "x = 0") (simp_all add: less_le)

lemma ilog2_mono:
  assumes "0 < x" "x \<le> y"
  shows "ilog2 x \<le> ilog2 y"
proof -
  have "0 < y" using assms by linarith
  have "(2::rat) powi (ilog2 x) < 2 powi (ilog2 y + 1)"
    using ilog2_bounds(1) [OF assms(1)] ilog2_bounds(2) [OF \<open>0 < y\<close>] assms(2) by linarith
  then have "ilog2 x < ilog2 y + 1"
    by (metis linorder_not_le one_le_numeral power_int_increasing)
  then show ?thesis by simp
qed

lemma fl_mono_pos:
  assumes "0 < x" "x \<le> y"
  shows "fl x \<le> fl y"
proof -
  have ypos: "0 < y" using assms by linarith
  have le: "ilog2 x \<le> ilog2 y" by (rule ilog2_mono [OF assms])
  show ?thesis
  proof (cases "ilog2 x = ilog2 y")
    case True
    define s where "s = (2::rat) powi (ilog2 x - 52)"
    have fx: "fl x = of_int (round_even (x / s)) * s" and spos: "0 < s"
      using fl_scaled(1,2) [OF assms(1)] by (simp_all add: s_def)
    have fy: "fl y = of_int (round_even (y / s)) * s"
      using fl_scaled(1) [OF ypos] by (simp add: s_def True)
    have "x / s \<le> y / s" using assms(2) spos by (simp add: divide_right_mono)
    then have "round_even (x / s) \<le> round_even (y / s)" by (rule round_even_mono)
    then have "(of_int (round_even (x / s)) :: rat) \<le> of_int (round_even (y / s))"
      by (simp only: of_int_le_iff)
    then show ?thesis using spos by (simp add: fx fy)
  next
    case False
    then have "ilog2 x + 1 \<le> ilog2 y" using le by simp
    then have "(2::rat) powi (ilog2 x + 1) \<le> 2 powi (ilog2 y)"
      by (intro power_int_increasing) simp_all
    then show ?thesis using fl_range(2) [OF assms(1)] fl_range(1) [OF ypos] by linarith
  qed
qed

lemma fl_mono: "0 \<le> x \<Longrightarrow> x \<le> y \<Longrightarrow> fl x \<le> fl y"
  using fl_mono_pos [of x y] fl_nonneg [of y] by (cases "x = 0") (simp_all add: less_le)



lemma fl_exact:
  assumes "x = of_int m * 2 powi e" "\<bar>m\<bar> \<le> 2 ^ 53" "0 < m"
  shows "fl x = x"
proof -
  have xpos: "0 < x" using assms by simp
  define k where "k = ilog2 x"
  define s where "s = (2::rat) powi (k - 52)"
  note f = fl_scaled [OF xpos, folded k_def, folded s_def]
  have "(2::rat) powi k \<le> of_int m * 2 powi e"
    using ilog2_bounds(1) [OF xpos] by (simp add: k_def assms(1))
  also have "\<dots> \<le> of_int (2 ^ 53) * 2 powi e"
  proof (rule mult_right_mono)
    have "m \<le> 2 ^ 53" using assms(2,3) by simp
    then show "(of_int m :: rat) \<le> of_int (2 ^ 53)" by (simp only: of_int_le_iff)
    show "0 \<le> (2::rat) powi e" by simp
  qed
  also have "\<dots> = 2 powi (53 + e)" by (simp add: power_int_add)
  finally have "k \<le> 53 + e"
    by (metis linorder_not_le one_less_numeral_iff power_int_strict_increasing semiring_norm(76))
  have xs: "x / s = of_int m * 2 powi (e - k + 52)"
    by (simp add: s_def assms(1) power_int_diff power_int_add field_simps)
  have "\<exists>n::int. x / s = of_int n"
  proof (cases "0 \<le> e - k + 52")
    case True
    then have "(2::rat) powi (e - k + 52) = of_int (2 ^ nat (e - k + 52))"
      by (simp add: power_int_nonneg_exp)
    then have "x / s = of_int (m * 2 ^ nat (e - k + 52))" by (simp add: xs)
    then show ?thesis by blast
  next
    case False
    with \<open>k \<le> 53 + e\<close> have ke: "k = 53 + e" by simp
    have "x / s < 2 ^ 53" by (rule f(4))
    moreover have "2 ^ 52 \<le> x / s" by (rule f(3))
    moreover have xs': "x / s = of_int m / 2" by (simp add: xs ke)
    ultimately have "of_int m < (2::rat) ^ 54" "(2::rat) ^ 53 \<le> of_int m" by simp_all
    then have "m = 2 ^ 53" using assms(2,3)
      by (metis abs_of_pos antisym of_int_le_iff of_int_numeral of_int_power)
    then have "x / s = of_int (2 ^ 52)" by (simp add: xs')
    then show ?thesis by blast
  qed
  then obtain n :: int where n: "x / s = of_int n" by blast
  have "fl x = of_int (round_even (x / s)) * s" by (rule f(1))
  also have "\<dots> = x / s * s" by (simp add: n)
  also have "\<dots> = x" using f(2) by simp
  finally show ?thesis .
qed

lemma fl_of_nonneg_int: "0 \<le> n \<Longrightarrow> n \<le> 2 ^ 53 \<Longrightarrow> fl (of_int n) = of_int n"
  using fl_exact [of "of_int n" n 0] by (cases "n = 0") simp_all

text \<open>Rounding is odd, so it is monotone everywhere and exact on the negative integers too.\<close>

lemma round_even_minus: "round_even (- x) = - round_even x"
proof (cases "x = of_int \<lfloor>x\<rfloor>")
  case True
  then obtain n :: int where "x = of_int n" by blast
  then have "- x = of_int (- n)" by simp
  then show ?thesis using \<open>x = of_int n\<close> by (simp only: round_even_of_int)
next
  case False
  define f where "f = \<lfloor>x\<rfloor>"
  have "of_int f \<le> x" "x < of_int f + 1" unfolding f_def by linarith+
  moreover have "x \<noteq> of_int f" using False by (simp add: f_def)
  ultimately have fx: "of_int f < x" "x < of_int f + 1" by simp_all
  have fm: "\<lfloor>- x\<rfloor> = - f - 1"
    using fx by (intro floor_unique) simp_all
  show ?thesis
    using fx unfolding round_even_def Let_def fm f_def [symmetric]
    by (auto simp: algebra_simps)
qed

lemma fl_minus: "fl (- x) = - fl x"
  by (simp add: fl_def Let_def round_even_minus)

lemma fl_mono_all:
  assumes "x \<le> y"
  shows "fl x \<le> fl y"
proof -
  consider "0 \<le> x" | "x < 0" "0 \<le> y" | "x < 0" "y < 0" by linarith
  then show ?thesis
  proof cases
    case 1
    then show ?thesis using assms by (rule fl_mono)
  next
    case 2
    have "0 \<le> fl (- x)" using 2(1) by (intro fl_nonneg) simp
    then have "fl x \<le> 0" using fl_minus [of x] by simp
    moreover have "0 \<le> fl y" using 2(2) by (rule fl_nonneg)
    ultimately show ?thesis by simp
  next
    case 3
    have "fl (- y) \<le> fl (- x)" using assms 3 by (intro fl_mono) simp_all
    then show ?thesis by (simp add: fl_minus)
  qed
qed

lemma fl_of_int: "\<bar>n\<bar> \<le> 2 ^ 53 \<Longrightarrow> fl (of_int n) = of_int n"
proof (cases "0 \<le> n")
  case True
  assume "\<bar>n\<bar> \<le> 2 ^ 53"
  with True show ?thesis by (simp add: fl_of_nonneg_int)
next
  case False
  assume "\<bar>n\<bar> \<le> 2 ^ 53"
  with False have "fl (of_int (- n)) = of_int (- n)" by (intro fl_of_nonneg_int) simp_all
  then show ?thesis using fl_minus [of "of_int n"] by simp
qed

lemma to_float_exact_abs: "\<bar>n\<bar> \<le> 2 ^ 53 \<Longrightarrow> to_float n = of_int n"
  by (simp add: to_float_def fl_of_int)

section \<open>The rarity classifier\<close>

lemma rarity_cases:
  "rarity i = COMMON \<longleftrightarrow> stat_total i < 10"
  "rarity i = UNCOMMON \<longleftrightarrow> 10 \<le> stat_total i \<and> stat_total i < 20"
  "rarity i = RARE \<longleftrightarrow> 20 \<le> stat_total i \<and> stat_total i < 30"
  "rarity i = MAGIC \<longleftrightarrow> 30 \<le> stat_total i \<and> stat_total i < 40"
  "rarity i = LEGENDARY \<longleftrightarrow> 40 \<le> stat_total i \<and> stat_total i < 45"
  "rarity i = MYTHIC \<longleftrightarrow> 45 \<le> stat_total i \<and> stat_total i < 50"
  "rarity i = DIVINE \<longleftrightarrow> 50 \<le> stat_total i"
  by (simp_all add: rarity_def Let_def)

lemma rarity_item_obj: "rarity (item_obj r) = get_item_rarity r"
  by (simp add: rarity_def get_item_rarity_def item_obj_def stat_total_def Let_def)

lemma stat_total_plain [simp]: "stat_total (plain_item t d a) = d + a"
  by (simp add: stat_total_def plain_item_def fmul_def py_int_def)

text \<open>
  Claim C5. The rarity of an item is a function of its total stat sum alone. It is monotone
  in the total; the seven tiers are exactly the intervals below 10, 10 to 19, 20 to 29,
  30 to 39, 40 to 44, 45 to 49 and from 50 on, so every total has one tier and the tiers
  leave no gap; the totals 9, 10, 19, 20, 29, 30, 39, 40, 44, 45, 49, 50 are common,
  uncommon, uncommon, rare, rare, magic, magic, legendary, legendary, mythic, mythic, divine;
  and the classifier of the blacksmith gives, on every inventory row, the rarity that
  \<open>Item.rarity\<close> gives on the item built from the row.
\<close>

theorem rarity_classifier:
  "(stat_total i \<le> stat_total j \<longrightarrow> tier_index (rarity i) \<le> tier_index (rarity j))
   \<and> (rarity i = COMMON \<longleftrightarrow> stat_total i < 10)
   \<and> (rarity i = UNCOMMON \<longleftrightarrow> 10 \<le> stat_total i \<and> stat_total i < 20)
   \<and> (rarity i = RARE \<longleftrightarrow> 20 \<le> stat_total i \<and> stat_total i < 30)
   \<and> (rarity i = MAGIC \<longleftrightarrow> 30 \<le> stat_total i \<and> stat_total i < 40)
   \<and> (rarity i = LEGENDARY \<longleftrightarrow> 40 \<le> stat_total i \<and> stat_total i < 45)
   \<and> (rarity i = MYTHIC \<longleftrightarrow> 45 \<le> stat_total i \<and> stat_total i < 50)
   \<and> (rarity i = DIVINE \<longleftrightarrow> 50 \<le> stat_total i)
   \<and> map (\<lambda>n. rarity (plain_item t n 0)) [9, 10, 19, 20, 29, 30, 39, 40, 44, 45, 49, 50]
       = [COMMON, UNCOMMON, UNCOMMON, RARE, RARE, MAGIC, MAGIC, LEGENDARY, LEGENDARY,
          MYTHIC, MYTHIC, DIVINE]
   \<and> rarity (item_obj r) = get_item_rarity r"
proof -
  have mono: "stat_total i \<le> stat_total j \<longrightarrow> tier_index (rarity i) \<le> tier_index (rarity j)"
    by (simp add: rarity_def Let_def)
  have bnd: "map (\<lambda>n. rarity (plain_item t n 0)) [9, 10, 19, 20, 29, 30, 39, 40, 44, 45, 49, 50]
       = [COMMON, UNCOMMON, UNCOMMON, RARE, RARE, MAGIC, MAGIC, LEGENDARY, LEGENDARY,
          MYTHIC, MYTHIC, DIVINE]"
    by (simp add: rarity_cases)
  show ?thesis
    by (intro conjI mono bnd rarity_cases rarity_item_obj)
qed

theorem rarity_classifier_witness:
  "stat_total (plain_item SWORD 19 0) \<le> stat_total (plain_item SWORD 15 5)
   \<and> rarity (plain_item SWORD 19 0) = UNCOMMON \<and> rarity (plain_item SWORD 15 5) = RARE
   \<and> tier_index (rarity (plain_item SWORD 19 0)) \<le> tier_index (rarity (plain_item SWORD 15 5))
   \<and> get_item_rarity (plain_row SWORD 19 0) = UNCOMMON"
proof -
  have a: "item_obj (plain_row SWORD 19 0) = plain_item SWORD 19 0"
    by (simp add: item_obj_def plain_row_def plain_item_def dict_get_def)
  have b: "stat_total (plain_item SWORD 19 0) \<le> stat_total (plain_item SWORD 15 5)" by simp
  note c = rarity_classifier [of "plain_item SWORD 19 0" "plain_item SWORD 15 5" SWORD
      "plain_row SWORD 19 0"]
  have u: "rarity (plain_item SWORD 19 0) = UNCOMMON"
    using c [THEN conjunct2, THEN conjunct2, THEN conjunct1] by simp
  have r: "rarity (plain_item SWORD 15 5) = RARE" by (simp add: rarity_def Let_def)
  have t: "tier_index (rarity (plain_item SWORD 19 0)) \<le> tier_index (rarity (plain_item SWORD 15 5))"
    using c b by blast
  have g: "get_item_rarity (plain_row SWORD 19 0) = UNCOMMON" using c u by (simp add: a)
  from b u r t g show ?thesis by blast
qed

section \<open>The upgrade transform\<close>

lemma to_float_exact: "0 \<le> n \<Longrightarrow> n \<le> 2 ^ 53 \<Longrightarrow> to_float n = of_int n"
  by (simp add: to_float_def fl_of_nonneg_int)

lemma to_float_nonneg: "0 \<le> n \<Longrightarrow> 0 \<le> to_float n"
  by (simp add: to_float_def fl_nonneg)

lemma to_float_mono: "0 \<le> a \<Longrightarrow> a \<le> b \<Longrightarrow> to_float a \<le> to_float b"
  by (simp add: to_float_def fl_mono)

lemma py_int_mono: "0 \<le> x \<Longrightarrow> x \<le> y \<Longrightarrow> py_int x \<le> py_int y"
  by (simp add: py_int_def floor_mono)

lemma py_int_of_int [simp]: "py_int (of_int n) = n"
  by (simp add: py_int_def)

lemma literal_005_nonneg: "0 \<le> fl (5 / 100)"
  by (rule fl_nonneg) simp

lemma level_multiplier_mono:
  assumes "0 \<le> l" "l \<le> l'"
  shows "level_multiplier l \<le> level_multiplier l'"
proof -
  have a: "0 \<le> to_float l" "to_float l \<le> to_float l'"
    using assms by (simp_all add: to_float_nonneg to_float_mono)
  have b: "0 \<le> fl (5 / 100) * to_float l" "fl (5 / 100) * to_float l \<le> fl (5 / 100) * to_float l'"
    using a literal_005_nonneg by (simp_all add: mult_left_mono)
  have c: "0 \<le> fmul (fl (5 / 100)) (to_float l)"
      "fmul (fl (5 / 100)) (to_float l) \<le> fmul (fl (5 / 100)) (to_float l')"
    unfolding fmul_def using b by (simp_all add: fl_nonneg fl_mono)
  show ?thesis unfolding level_multiplier_def fadd_def
    by (rule fl_mono) (use c in simp_all)
qed

lemma level_multiplier_0: "level_multiplier 0 = 1"
proof -
  have "fl 1 = 1" using fl_exact [of 1 1 0] by simp
  then show ?thesis by (simp add: level_multiplier_def fadd_def fmul_def to_float_def)
qed

lemma level_multiplier_10: "level_multiplier 10 = 3 / 2"
  unfolding level_multiplier_def by code_simp

lemma level_multiplier_nonneg: "0 \<le> l \<Longrightarrow> 0 \<le> level_multiplier l"
  using level_multiplier_mono [of 0 l] by (simp add: level_multiplier_0)

lemma scaled_mono:
  assumes "0 \<le> b" "0 \<le> m" "m \<le> m'"
  shows "scaled b m \<le> scaled b m'"
proof -
  have "0 \<le> to_float b" using assms(1) by (rule to_float_nonneg)
  then have "0 \<le> to_float b * m" "to_float b * m \<le> to_float b * m'"
    using assms(2,3) by (simp_all add: mult_left_mono)
  then have "0 \<le> fmul (to_float b) m" "fmul (to_float b) m \<le> fmul (to_float b) m'"
    unfolding fmul_def by (simp_all add: fl_nonneg fl_mono)
  then show ?thesis unfolding scaled_def by (rule py_int_mono)
qed

lemma scaled_1:
  assumes "0 \<le> b" "b \<le> 2 ^ 53"
  shows "scaled b 1 = b"
  using assms by (simp add: scaled_def fmul_def to_float_exact fl_of_nonneg_int)

lemma scaled_3_2:
  assumes "0 \<le> b" "b \<le> 2 ^ 51"
  shows "scaled b (3 / 2) = b + b div 2"
proof (cases "b = 0")
  case True
  then show ?thesis by (simp add: scaled_def fmul_def to_float_def py_int_def)
next
  case False
  have tf: "to_float b = of_int b" using assms by (simp add: to_float_exact)
  have e1: "fl (of_int b * (3 / 2)) = of_int b * (3 / 2)"
  proof (rule fl_exact [where m = "3 * b" and e = "-1"])
    show "rat_of_int b * (3 / 2) = rat_of_int (3 * b) * 2 powi - 1" by simp
    show "\<bar>3 * b\<bar> \<le> 2 ^ 53" using assms by simp
    show "0 < 3 * b" using assms False by simp
  qed
  have e2: "\<lfloor>rat_of_int b * (3 / 2)\<rfloor> = b + b div 2"
  proof -
    have "rat_of_int b * (3 / 2) = of_int (3 * b) / of_int 2" by simp
    then have "\<lfloor>rat_of_int b * (3 / 2)\<rfloor> = (3 * b) div 2"
      by (simp only: floor_divide_of_int_eq)
    then show ?thesis by linarith
  qed
  have nn: "0 \<le> rat_of_int b * (3 / 2)" using assms by simp
  show ?thesis unfolding scaled_def fmul_def tf py_int_def
    by (simp only: e1 nn if_True e2)
qed

lemma effective_unfold:
  "effective_damage i = scaled (damage i) (level_multiplier (upgrade_level i))"
  "effective_armor i = scaled (armor i) (level_multiplier (upgrade_level i))"
  "effective_health_bonus i = scaled (health_bonus i) (level_multiplier (upgrade_level i))"
  "effective_speed_bonus i = scaled (speed_bonus i) (level_multiplier (upgrade_level i))"
  "effective_magic_bonus i = scaled (magic_bonus i) (level_multiplier (upgrade_level i))"
  "effective_luck_bonus i = fmul (luck_bonus i) (level_multiplier (upgrade_level i))"
  "effective_crit_bonus i = fmul (crit_bonus i) (level_multiplier (upgrade_level i))"
  by (simp_all add: effective_damage_def effective_armor_def effective_health_bonus_def
      effective_speed_bonus_def effective_magic_bonus_def effective_luck_bonus_def
      effective_crit_bonus_def scaled_def level_multiplier_def get_upgrade_multiplier_def)

lemma fmul_mono_right: "0 \<le> x \<Longrightarrow> 0 \<le> m \<Longrightarrow> m \<le> m' \<Longrightarrow> fmul x m \<le> fmul x m'"
  unfolding fmul_def by (intro fl_mono) (simp_all add: mult_left_mono)

lemma fmul_1: "fl x = x \<Longrightarrow> fmul x 1 = x"
  by (simp add: fmul_def)

lemma floor_three_halves: "\<lfloor>3 * rat_of_int b / 2\<rfloor> = b + b div 2"
proof -
  have "3 * rat_of_int b / 2 = of_int (3 * b) / of_int 2" by simp
  then have "\<lfloor>3 * rat_of_int b / 2\<rfloor> = (3 * b) div 2"
    by (simp only: floor_divide_of_int_eq)
  then show ?thesis by linarith
qed

lemma upgrade_preview_effective:
  "upgrade_preview r =
     ((effective_damage (item_obj r), effective_armor (item_obj r)),
      (effective_damage ((item_obj r)\<lparr>upgrade_level := upgrade_level (item_obj r) + 1\<rparr>),
       effective_armor ((item_obj r)\<lparr>upgrade_level := upgrade_level (item_obj r) + 1\<rparr>)))"
  by (simp add: upgrade_preview_def Let_def effective_damage_def effective_armor_def
      get_upgrade_multiplier_def item_obj_def)

text \<open>
  Claim C4, as the code has it. For an item whose integer stats lie between 0 and \<open>2\<^sup>5\<^sup>1\<close>
  and whose luck and crit bonuses are non-negative floats, every effective stat is
  non-decreasing in the upgrade level over the capped range 0 to 10; at level 0 every effective stat is the base stat; at level 10 every integer stat
  is the floor of 1.5 times its base, and the luck and crit bonuses, which are not floored,
  are the float product of the base and 1.5.
\<close>

theorem upgrade_transform:
  assumes "\<forall>b \<in> set (base_ints i). 0 \<le> b \<and> b \<le> 2 ^ 51"
    and "\<forall>x \<in> set (base_floats i). 0 \<le> x \<and> fl x = x"
    and "0 \<le> l" and "l \<le> l'" and "l' \<le> 10"
  shows "list_all2 (\<le>) (effective_ints (i\<lparr>upgrade_level := l\<rparr>))
           (effective_ints (i\<lparr>upgrade_level := l'\<rparr>))
       \<and> list_all2 (\<le>) (effective_floats (i\<lparr>upgrade_level := l\<rparr>))
           (effective_floats (i\<lparr>upgrade_level := l'\<rparr>))
       \<and> effective_ints (i\<lparr>upgrade_level := 0\<rparr>) = base_ints i
       \<and> effective_floats (i\<lparr>upgrade_level := 0\<rparr>) = base_floats i
       \<and> effective_ints (i\<lparr>upgrade_level := 10\<rparr>)
           = map (\<lambda>b. \<lfloor>3 / 2 * rat_of_int b\<rfloor>) (base_ints i)
       \<and> effective_floats (i\<lparr>upgrade_level := 10\<rparr>)
           = map (\<lambda>x. fl (x * (3 / 2))) (base_floats i)"
proof -
  have m: "0 \<le> level_multiplier l" "level_multiplier l \<le> level_multiplier l'"
    using assms(3,4) by (simp_all add: level_multiplier_nonneg level_multiplier_mono)
  have r: "0 \<le> damage i" "damage i \<le> 2 ^ 51" "0 \<le> armor i" "armor i \<le> 2 ^ 51"
    "0 \<le> health_bonus i" "health_bonus i \<le> 2 ^ 51" "0 \<le> speed_bonus i" "speed_bonus i \<le> 2 ^ 51"
    "0 \<le> magic_bonus i" "magic_bonus i \<le> 2 ^ 51"
    using assms(1) by (simp_all add: base_ints_def)
  have f: "0 \<le> luck_bonus i" "fl (luck_bonus i) = luck_bonus i"
    "0 \<le> crit_bonus i" "fl (crit_bonus i) = crit_bonus i"
    using assms(2) by (simp_all add: base_floats_def)
  have A: "list_all2 (\<le>) (effective_ints (i\<lparr>upgrade_level := l\<rparr>))
           (effective_ints (i\<lparr>upgrade_level := l'\<rparr>))"
    using r m by (simp add: effective_ints_def effective_unfold scaled_mono)
  have B: "list_all2 (\<le>) (effective_floats (i\<lparr>upgrade_level := l\<rparr>))
           (effective_floats (i\<lparr>upgrade_level := l'\<rparr>))"
    using f m by (simp add: effective_floats_def effective_unfold fmul_mono_right)
  have r53: "damage i \<le> 2 ^ 53" "armor i \<le> 2 ^ 53" "health_bonus i \<le> 2 ^ 53"
    "speed_bonus i \<le> 2 ^ 53" "magic_bonus i \<le> 2 ^ 53"
    using r by simp_all
  have C: "effective_ints (i\<lparr>upgrade_level := 0\<rparr>) = base_ints i"
    using r r53 by (simp add: effective_ints_def base_ints_def effective_unfold
        level_multiplier_0 scaled_1)
  have D: "effective_floats (i\<lparr>upgrade_level := 0\<rparr>) = base_floats i"
    using f by (simp add: effective_floats_def base_floats_def effective_unfold
        level_multiplier_0 fmul_1)
  have E: "effective_ints (i\<lparr>upgrade_level := 10\<rparr>)
           = map (\<lambda>b. \<lfloor>3 / 2 * rat_of_int b\<rfloor>) (base_ints i)"
    using r by (simp add: effective_ints_def base_ints_def effective_unfold
        level_multiplier_10 scaled_3_2 floor_three_halves)
  have F: "effective_floats (i\<lparr>upgrade_level := 10\<rparr>)
           = map (\<lambda>x. fl (x * (3 / 2))) (base_floats i)"
    by (simp add: effective_floats_def base_floats_def effective_unfold
        level_multiplier_10 fmul_def)
  from A B C D E F show ?thesis by (intro conjI)
qed

theorem upgrade_transform_witness:
  "base_ints (plain_item SWORD 7 3) = [7, 3, 0, 0, 0]
   \<and> base_floats (plain_item SWORD 7 3) = [0, 0]
   \<and> effective_ints ((plain_item SWORD 7 3)\<lparr>upgrade_level := 0\<rparr>) = [7, 3, 0, 0, 0]
   \<and> effective_ints ((plain_item SWORD 7 3)\<lparr>upgrade_level := 10\<rparr>) = [10, 4, 0, 0, 0]
   \<and> list_all2 (\<le>) (effective_ints ((plain_item SWORD 7 3)\<lparr>upgrade_level := 2\<rparr>))
         (effective_ints ((plain_item SWORD 7 3)\<lparr>upgrade_level := 5\<rparr>))"
proof -
  have h1: "\<forall>b \<in> set (base_ints (plain_item SWORD 7 3)). 0 \<le> b \<and> b \<le> 2 ^ 51"
    by (simp add: base_ints_def plain_item_def)
  have h2: "\<forall>x \<in> set (base_floats (plain_item SWORD 7 3)). 0 \<le> x \<and> fl x = x"
    by (simp add: base_floats_def plain_item_def)
  have fl1: "\<lfloor>21 / 2 :: rat\<rfloor> = 10" "\<lfloor>9 / 2 :: rat\<rfloor> = 4"
    by code_simp+
  note t = upgrade_transform [OF h1 h2, of 2 5]
  have b: "base_ints (plain_item SWORD 7 3) = [7, 3, 0, 0, 0]"
    by (simp add: base_ints_def plain_item_def)
  from t have "effective_ints ((plain_item SWORD 7 3)\<lparr>upgrade_level := 0\<rparr>) = [7, 3, 0, 0, 0]"
    and "effective_ints ((plain_item SWORD 7 3)\<lparr>upgrade_level := 10\<rparr>) = [10, 4, 0, 0, 0]"
    and "list_all2 (\<le>) (effective_ints ((plain_item SWORD 7 3)\<lparr>upgrade_level := 2\<rparr>))
         (effective_ints ((plain_item SWORD 7 3)\<lparr>upgrade_level := 5\<rparr>))"
    by (simp_all add: b fl1)
  moreover have "base_floats (plain_item SWORD 7 3) = [0, 0]"
    by (simp add: base_floats_def plain_item_def)
  ultimately show ?thesis using b by (intro conjI)
qed

text \<open>
  At level 10 an odd base stat does not give exactly 1.5 times the base: a damage of 1 stays 1.
\<close>

theorem upgrade_exactly_one_and_a_half_counterexample:
  "rat_of_int (effective_damage ((plain_item SWORD 1 0)\<lparr>upgrade_level := 10\<rparr>))
     \<noteq> 3 / 2 * rat_of_int (damage (plain_item SWORD 1 0))"
  by code_simp

text \<open>
  For evaluation the scale \<open>2\<^sup>e\<close> of the rounding is computed in the integers.
\<close>

lemma fl_code [code]:
  "fl x = (if x = 0 then 0 else
     let e = ilog2 \<bar>x\<bar> - 52 in
     if 0 \<le> e then rat_of_int (round_even (x / rat_of_int (2 ^ nat e)) * 2 ^ nat e)
     else rat_of_int (round_even (x * rat_of_int (2 ^ nat (- e)))) / rat_of_int (2 ^ nat (- e)))"
proof -
  have a: "0 \<le> e \<Longrightarrow> (2::rat) powi e = rat_of_int (2 ^ nat e)" for e
    by (simp add: power_int_nonneg_exp)
  have b: "\<not> 0 \<le> e \<Longrightarrow> (2::rat) powi e = 1 / rat_of_int (2 ^ nat (- e))" for e
    by (simp add: power_int_def field_simps)
  show ?thesis
    by (auto simp add: fl_def Let_def a b)
qed

section \<open>The item generator: the stat total and the rolled total\<close>
























section \<open>Reroll\<close>

text \<open>
  Claim C3 says that a reroll keeps the rarity tier. The new total is drawn from the range
  of the tier, but the allocations are truncated, so the stat total of the rerolled item
  can fall below the range: an uncommon Dagger (damage 9, armor 1, total 10) whose reroll
  draws a new total of 10 gets damage 8 and armor 1, total 9, and is common.
\<close>

theorem reroll_changes_rarity:
  "get_item_rarity (plain_row DAGGER 9 1) = UNCOMMON
   \<and> map_option get_item_rarity (result (reforge_row (plain_row DAGGER 9 1) (tape []))) = Some COMMON
   \<and> map_option row_damage (result (reforge_row (plain_row DAGGER 9 1) (tape []))) = Some 8
   \<and> map_option row_armor (result (reforge_row (plain_row DAGGER 9 1) (tape []))) = Some 1"
  by code_simp

section \<open>The success chance of an adventure\<close>

lemma fl_consts: "fl (- 1) = - 1" "fl (- 10) = - 10"
  using fl_of_int [of "- 1"] fl_of_int [of "- 10"] by simp_all

lemma luck_term_lower:
  assumes "0 \<le> luck"
  shows "- 10 \<le> fmul (fsub luck 1) 10"
proof -
  have "fl (- 1) \<le> fl (luck - 1)" using assms by (intro fl_mono_all) simp
  then have a: "- 1 \<le> fsub luck 1" by (simp add: fsub_def fl_consts)
  have "fl (- 10) \<le> fl (fsub luck 1 * 10)" using a by (intro fl_mono_all) simp
  then show ?thesis by (simp add: fmul_def fl_consts)
qed

lemma success_chance_formula:
  assumes "0 \<le> calculate_adventure_power items" "cd_level cd - difficulty \<le> 2 ^ 40"
    "0 \<le> cd_luck cd"
  shows "success_chance cd difficulty items
    = max 0 (min 95 (fadd (rat_of_int (60 + 5 * max 0 (cd_level cd - difficulty)
          + min 20 (calculate_adventure_power items div 10)))
        (fmul (fsub (cd_luck cd) 1) 10)))"
proof -
  define m where "m = max 0 (cd_level cd - difficulty)"
  define k where "k = min 20 (calculate_adventure_power items div 10)"
  define n where "n = 60 + 5 * m + k"
  have m0: "0 \<le> m" "m \<le> 1099511627776" using assms(2) by (simp_all add: m_def)
  have k0: "0 \<le> k" "k \<le> 20" using assms(1) by (simp_all add: k_def)
  have n0: "60 \<le> n" "n \<le> 9007199254740992" unfolding n_def using m0 k0 by linarith+
  then have n1: "0 \<le> n" "n \<le> 2 ^ 53" by simp_all
  have tf: "to_float n = of_int n" using n1 by (rule to_float_exact)
  define t where "t = fmul (fsub (cd_luck cd) 1) 10"
  have t0: "- 10 \<le> t" unfolding t_def using assms(3) by (rule luck_term_lower)
  have "60 \<le> rat_of_int n" using n0(1) by (simp only: of_int_numeral [symmetric, where 'a = rat] of_int_le_iff)
  then have "0 \<le> rat_of_int n + t" using t0 by linarith
  then have z0: "0 \<le> fadd (rat_of_int n) t" unfolding fadd_def by (rule fl_nonneg)
  have "success_chance cd difficulty items = py_min 95 (fadd (to_float n) t)"
    by (simp add: success_chance_def Let_def n_def m_def k_def t_def mult.commute)
  also have "\<dots> = max 0 (min 95 (fadd (rat_of_int n) t))"
    using z0 by (simp add: tf py_min_def min_def max_def)
  finally show ?thesis by (simp add: n_def m_def k_def t_def)
qed

lemma scenario_values:
  "success_chance novice 1 [] = 60"
  "fst (random_py (tape [2 ^ 52])) = 1 / 2"
  "fst (adventure_success novice 1 [] (tape [2 ^ 52]))"
  "fst (random_py (tape [6305039478318694])) = fl (7 / 10)"
  "\<not> fst (adventure_success novice 1 [] (tape [6305039478318694]))"
  "success_chance (novice\<lparr>cd_luck := 3 / 2\<rparr>) 1 [] = 65"
  by code_simp+

text \<open>
  Claim C6, as the code has it. For a level-1 character with no equipment and luck 1.0 on a
  difficulty-1 adventure the success chance is exactly 60 (the base of 60 and three zero
  terms); a uniform draw of 0.50 succeeds and a draw of 0.70 fails. For every character
  with non-negative luck and non-negative equipment power the chance is
  \<open>clamp(60 + 5 * max(0, level - difficulty) + min(20, equipment_power // 10)
  + 10 * (luck - 1.0), 0, 95)\<close>, the sum being taken in float arithmetic with the integer
  terms added first (luck 1.5 gives 65 in the scenario), and the adventure succeeds exactly
  when the uniform draw is below the hundredth of the chance.
\<close>

theorem adventure_success_chance:
  assumes "0 \<le> calculate_adventure_power items" and "cd_level cd - difficulty \<le> 2 ^ 40"
    and "0 \<le> cd_luck cd" and "cd_luck cd \<le> 2 ^ 40"
  shows "success_chance novice 1 [] = 60
   \<and> fst (random_py (tape [2 ^ 52])) = 1 / 2
   \<and> fst (adventure_success novice 1 [] (tape [2 ^ 52]))
   \<and> fst (random_py (tape [6305039478318694])) = fl (7 / 10)
   \<and> \<not> fst (adventure_success novice 1 [] (tape [6305039478318694]))
   \<and> success_chance (novice\<lparr>cd_luck := 3 / 2\<rparr>) 1 [] = 65
   \<and> success_chance cd difficulty items
        = max 0 (min 95 (fadd (rat_of_int (60 + 5 * max 0 (cd_level cd - difficulty)
              + min 20 (calculate_adventure_power items div 10)))
            (fmul (fsub (cd_luck cd) 1) 10)))
   \<and> adventure_success cd difficulty items g
        = (fst (random_py g) < fdiv (success_chance cd difficulty items) 100, advance g)"
proof -
  have r: "adventure_success cd difficulty items g
        = (fst (random_py g) < fdiv (success_chance cd difficulty items) 100, advance g)"
    by (simp add: adventure_success_def random_py_def)
  show ?thesis
    by (intro conjI scenario_values success_chance_formula [OF assms(1-3)] r)
qed

theorem adventure_success_chance_witness:
  "calculate_adventure_power [plain_row SWORD 30 7] = 37
   \<and> success_chance (novice\<lparr>cd_level := 5, cd_luck := 3 / 2\<rparr>) 2 [plain_row SWORD 30 7] = 83"
proof -
  have p: "calculate_adventure_power [plain_row SWORD 30 7] = 37"
    by (simp add: calculate_adventure_power_def plain_row_def)
  have h: "0 \<le> calculate_adventure_power [plain_row SWORD 30 7]"
    "cd_level (novice\<lparr>cd_level := 5, cd_luck := 3 / 2\<rparr>) - 2 \<le> 2 ^ 40"
    "0 \<le> cd_luck (novice\<lparr>cd_level := 5, cd_luck := 3 / 2\<rparr>)"
    "cd_luck (novice\<lparr>cd_level := 5, cd_luck := 3 / 2\<rparr>) \<le> 2 ^ 40"
    by (simp_all add: p novice_def)
  have v: "max 0 (min 95 (fadd (rat_of_int (60 + 5 * max 0 (5 - 2) + min 20 (37 div 10)))
            (fmul (fsub (3 / 2) 1) 10))) = 83"
    by code_simp
  from adventure_success_chance [OF h]
  have "success_chance (novice\<lparr>cd_level := 5, cd_luck := 3 / 2\<rparr>) 2 [plain_row SWORD 30 7]
        = max 0 (min 95 (fadd (rat_of_int (60 + 5 * max 0 (5 - 2) + min 20 (37 div 10)))
            (fmul (fsub (3 / 2) 1) 10)))"
    by (simp add: p novice_def)
  with v p show ?thesis by simp
qed

text \<open>
  The chance of the scenario is not 65, and the equipment term is the integer quotient: an
  equipment power of 37 adds 3, not 3.7.
\<close>

theorem adventure_success_chance_65_counterexample:
  "success_chance novice 1 [] \<noteq> 65
   \<and> success_chance novice 1 [plain_row SWORD 30 7] \<noteq> 60 + 37 / 10"
  by code_simp

section \<open>Team battles\<close>

lemma random_py_range: "0 \<le> fst (random_py g)" "fst (random_py g) < 1"
proof -
  have "0 \<le> g 0 mod 2 ^ 53" "g 0 mod 2 ^ 53 < 2 ^ 53" by simp_all
  then have "0 \<le> rat_of_int (g 0 mod 2 ^ 53)" "rat_of_int (g 0 mod 2 ^ 53) < rat_of_int (2 ^ 53)"
    by (simp_all only: of_int_0_le_iff of_int_less_iff)
  then show "0 \<le> fst (random_py g)" "fst (random_py g) < 1"
    by (simp_all add: random_py_def)
qed

lemma uniform_range:
  assumes "fl a = a" "0 \<le> a" "a \<le> b" "fl (a + fl (fl (b - a))) \<le> b"
  shows "a \<le> fst (uniform a b g)" and "fst (uniform a b g) \<le> b"
proof -
  define u where "u = fst (random_py g)"
  define w where "w = fl (b - a)"
  have u: "0 \<le> u" "u \<le> 1" using random_py_range [of g] by (simp_all add: u_def)
  have w0: "0 \<le> w" unfolding w_def using assms(3) by (intro fl_nonneg) simp
  have wu: "0 \<le> w * u" "w * u \<le> w" using w0 u by (simp_all add: mult_left_le)
  have y: "0 \<le> fl (w * u)" "fl (w * u) \<le> fl w" using wu by (simp_all add: fl_nonneg fl_mono)
  have e: "fst (uniform a b g) = fl (a + fl (w * u))"
    by (simp add: uniform_def fadd_def fmul_def fsub_def u_def w_def split_beta)
  have "fl a \<le> fl (a + fl (w * u))" using assms(2) y(1) by (intro fl_mono) simp_all
  then show "a \<le> fst (uniform a b g)" by (simp add: e assms(1))
  have "fl (a + fl (w * u)) \<le> fl (a + fl w)" using assms(2) y by (intro fl_mono) simp_all
  then show "fst (uniform a b g) \<le> b" using assms(4) by (simp add: e w_def)
qed

lemma jitter_side_conditions:
  "fl (fst (jitter_bounds Battle3v3)) = fst (jitter_bounds Battle3v3)"
  "fl (fst (jitter_bounds Battle5v5)) = fst (jitter_bounds Battle5v5)"
  "fl (fst (jitter_bounds Battle10v10)) = fst (jitter_bounds Battle10v10)"
  "0 \<le> fst (jitter_bounds Battle3v3)" "fst (jitter_bounds Battle3v3) \<le> snd (jitter_bounds Battle3v3)"
  "0 \<le> fst (jitter_bounds Battle5v5)" "fst (jitter_bounds Battle5v5) \<le> snd (jitter_bounds Battle5v5)"
  "0 \<le> fst (jitter_bounds Battle10v10)" "fst (jitter_bounds Battle10v10) \<le> snd (jitter_bounds Battle10v10)"
  "fl (fst (jitter_bounds Battle3v3) + fl (fl (snd (jitter_bounds Battle3v3) - fst (jitter_bounds Battle3v3))))
     \<le> snd (jitter_bounds Battle3v3)"
  "fl (fst (jitter_bounds Battle5v5) + fl (fl (snd (jitter_bounds Battle5v5) - fst (jitter_bounds Battle5v5))))
     \<le> snd (jitter_bounds Battle5v5)"
  "fl (fst (jitter_bounds Battle10v10) + fl (fl (snd (jitter_bounds Battle10v10) - fst (jitter_bounds Battle10v10))))
     \<le> snd (jitter_bounds Battle10v10)"
  by code_simp+

lemma team_jitter_range:
  "fst (jitter_bounds b) \<le> fst (team_jitter b g)" "fst (team_jitter b g) \<le> snd (jitter_bounds b)"
  unfolding team_jitter_def
  by (cases b; hypsubst_thin; intro uniform_range jitter_side_conditions)+

lemma team_constants:
  "snd (jitter_bounds Battle3v3) - fst (jitter_bounds Battle3v3)
     < snd (jitter_bounds Battle5v5) - fst (jitter_bounds Battle5v5)"
  "snd (jitter_bounds Battle5v5) - fst (jitter_bounds Battle5v5)
     < snd (jitter_bounds Battle10v10) - fst (jitter_bounds Battle10v10)"
  "0 < coordination_penalty Battle10v10"
  "coordination_penalty Battle10v10 < coordination_penalty Battle5v5"
  "coordination_penalty Battle5v5 < coordination_penalty Battle3v3"
  "coordination_penalty Battle3v3 < 1"
  by code_simp+

lemma randint_total: "a \<le> b \<Longrightarrow> randint a b g = Inr (a + g 0 mod (b - a + 1), advance g)"
  by (simp add: randint_def randbelow_def bind_r_def)

lemma autoplay_power_total:
  "\<exists>p t g'. autoplay_calculate_battle_power c its cog now table g = Inr ((p, t), g')"
  by (simp add: autoplay_calculate_battle_power_def randint_total bind_r_def Let_def split_beta)

lemma team_power_total:
  "\<exists>p t g'. team_power items_of cog now fs table g = Inr ((p, t), g')"
proof (induction fs arbitrary: table g)
  case Nil
  then show ?case by simp
next
  case (Cons f fs)
  obtain p t g' where a: "autoplay_calculate_battle_power f (items_of (cr_user_id f)) cog now table g
      = Inr ((p, t), g')"
    using autoplay_power_total by blast
  obtain ps t' g'' where b: "team_power items_of cog now fs t g' = Inr ((ps, t'), g'')"
    using Cons.IH by blast
  show ?case by (simp add: a b bind_r_def)
qed

lemma advance_apply: "advance g n = g (Suc n)"
  by (simp add: advance_def)

lemma team_jitter_formula:
  "team_jitter b g = (fadd (fst (jitter_bounds b))
       (fmul (fsub (snd (jitter_bounds b)) (fst (jitter_bounds b)))
          (rat_of_int (g 0 mod 2 ^ 53) / 2 ^ 53)), advance g)"
  by (simp add: team_jitter_def uniform_def random_py_def)

lemma team_rolls_formula:
  assumes "\<bar>pa\<bar> \<le> 2 ^ 53" "\<bar>pb\<bar> \<le> 2 ^ 53"
  shows "team_rolls b pa pb g =
     ((fmul (fmul (rat_of_int pa) (fst (team_jitter b g))) (coordination_penalty b),
       fmul (fmul (rat_of_int pb) (fst (team_jitter b (advance g)))) (coordination_penalty b)),
      advance (advance g))"
  using assms by (simp add: team_rolls_def team_jitter_formula to_float_exact_abs Let_def)

lemma team_battle_winner_formula:
  assumes "team_power items_of cog now team_a table g = Inr ((pa, t1), g1)"
    and "team_power items_of cog now team_b t1 g1 = Inr ((pb, t2), g2)"
    and "\<bar>pa\<bar> \<le> 2 ^ 53" and "\<bar>pb\<bar> \<le> 2 ^ 53"
  shows "team_battle_winner b items_of cog now team_a team_b table g =
     (let team_a_roll = fmul (fmul (rat_of_int pa) (fst (team_jitter b g2))) (coordination_penalty b);
          team_b_roll = fmul (fmul (rat_of_int pb) (fst (team_jitter b (advance g2))))
                          (coordination_penalty b)
      in Inr (((if team_a_roll > team_b_roll then (team_a, team_b) else (team_b, team_a)), t2),
              advance (advance g2)))"
  by (simp add: team_battle_winner_def assms(1,2) bind_r_def Let_def
      team_rolls_formula [OF assms(3,4)])

lemma squad_power:
  "team_power (\<lambda>u. []) False 0 (squad i l) [] g
     = Inr ((3 * (l * 10) + (- 20 + g 0 mod 41) + (- 20 + g 1 mod 41) + (- 20 + g 2 mod 41), []),
            advance (advance (advance g)))"
  by (simp add: squad_def autoplay_calculate_battle_power_def randint_total bind_r_def
      advance_apply numeral_2_eq_2)

text \<open>
  Claim C8, as the code has it. In a team battle each side's summed power (here within the
  range where its conversion to a float is exact) is multiplied by a uniform jitter factor
  drawn for that side alone, the first from the next word of the generator and the second
  from the word after it, and by the coordination penalty of the battle type. The jitter
  lies within the bounds of the battle type, and its range is wider, not narrower, for
  larger teams: 0.85 to 1.15 for 3v3, 0.8 to 1.2 for 5v5, 0.75 to 1.25 for 10v10. The
  penalty is 0.8, 0.75 and 0.65: below 1 and decreasing as the team size grows. Team A wins
  when its adjusted value is strictly higher, and team B wins otherwise.
\<close>

theorem team_battle_resolution:
  assumes "team_power items_of cog now team_a table g = Inr ((pa, t1), g1)"
    and "team_power items_of cog now team_b t1 g1 = Inr ((pb, t2), g2)"
    and "\<bar>pa\<bar> \<le> 2 ^ 53" and "\<bar>pb\<bar> \<le> 2 ^ 53"
  shows "map jitter_bounds [Battle3v3, Battle5v5, Battle10v10]
       = [(fl (85 / 100), fl (115 / 100)), (fl (8 / 10), fl (12 / 10)), (fl (75 / 100), fl (125 / 100))]
   \<and> map coordination_penalty [Battle3v3, Battle5v5, Battle10v10]
       = [fl (8 / 10), fl (75 / 100), fl (65 / 100)]
   \<and> snd (jitter_bounds Battle3v3) - fst (jitter_bounds Battle3v3)
       < snd (jitter_bounds Battle5v5) - fst (jitter_bounds Battle5v5)
   \<and> snd (jitter_bounds Battle5v5) - fst (jitter_bounds Battle5v5)
       < snd (jitter_bounds Battle10v10) - fst (jitter_bounds Battle10v10)
   \<and> 0 < coordination_penalty Battle10v10
   \<and> coordination_penalty Battle10v10 < coordination_penalty Battle5v5
   \<and> coordination_penalty Battle5v5 < coordination_penalty Battle3v3
   \<and> coordination_penalty Battle3v3 < 1
   \<and> fst (team_jitter b g2) = fadd (fst (jitter_bounds b))
         (fmul (fsub (snd (jitter_bounds b)) (fst (jitter_bounds b)))
            (rat_of_int (g2 0 mod 2 ^ 53) / 2 ^ 53))
   \<and> fst (team_jitter b (advance g2)) = fadd (fst (jitter_bounds b))
         (fmul (fsub (snd (jitter_bounds b)) (fst (jitter_bounds b)))
            (rat_of_int (g2 1 mod 2 ^ 53) / 2 ^ 53))
   \<and> fst (jitter_bounds b) \<le> fst (team_jitter b g2)
   \<and> fst (team_jitter b g2) \<le> snd (jitter_bounds b)
   \<and> fst (jitter_bounds b) \<le> fst (team_jitter b (advance g2))
   \<and> fst (team_jitter b (advance g2)) \<le> snd (jitter_bounds b)
   \<and> team_rolls b pa pb g2 =
        ((fmul (fmul (rat_of_int pa) (fst (team_jitter b g2))) (coordination_penalty b),
          fmul (fmul (rat_of_int pb) (fst (team_jitter b (advance g2)))) (coordination_penalty b)),
         advance (advance g2))
   \<and> team_battle_winner b items_of cog now team_a team_b table g =
       (let team_a_roll = fmul (fmul (rat_of_int pa) (fst (team_jitter b g2))) (coordination_penalty b);
            team_b_roll = fmul (fmul (rat_of_int pb) (fst (team_jitter b (advance g2))))
                            (coordination_penalty b)
        in Inr (((if team_a_roll > team_b_roll then (team_a, team_b) else (team_b, team_a)), t2),
                advance (advance g2)))"
proof -
  have lit: "map jitter_bounds [Battle3v3, Battle5v5, Battle10v10]
       = [(fl (85 / 100), fl (115 / 100)), (fl (8 / 10), fl (12 / 10)), (fl (75 / 100), fl (125 / 100))]"
    "map coordination_penalty [Battle3v3, Battle5v5, Battle10v10]
       = [fl (8 / 10), fl (75 / 100), fl (65 / 100)]"
    by simp_all
  have j1: "fst (team_jitter b g2) = fadd (fst (jitter_bounds b))
         (fmul (fsub (snd (jitter_bounds b)) (fst (jitter_bounds b)))
            (rat_of_int (g2 0 mod 2 ^ 53) / 2 ^ 53))"
    by (simp add: team_jitter_formula)
  have j2: "fst (team_jitter b (advance g2)) = fadd (fst (jitter_bounds b))
         (fmul (fsub (snd (jitter_bounds b)) (fst (jitter_bounds b)))
            (rat_of_int (g2 1 mod 2 ^ 53) / 2 ^ 53))"
    by (simp add: team_jitter_formula advance_apply)
  show ?thesis
    by (intro conjI lit team_constants j1 j2 team_jitter_range
        team_rolls_formula [OF assms(3,4)] team_battle_winner_formula [OF assms])
qed

theorem team_battle_resolution_witness:
  "result (team_power (\<lambda>u. []) False 0 (squad 1 5) [] (tape [20, 20, 20, 20, 20, 20, 2 ^ 52, 2 ^ 52]))
     = Some (150, [])
   \<and> result (team_battle_winner Battle3v3 (\<lambda>u. []) False 0 (squad 1 5) (squad 4 4) []
        (tape [20, 20, 20, 20, 20, 20, 2 ^ 52, 2 ^ 52]))
     = Some ((squad 1 5, squad 4 4), [])"
proof -
  define g where "g = tape [20, 20, 20, 20, 20, 20, 2 ^ 52, 2 ^ 52]"
  define g1 where "g1 = advance (advance (advance g))"
  define g2 where "g2 = advance (advance (advance g1))"
  have w: "g 0 = 20" "g 1 = 20" "g 2 = 20" "g1 0 = 20" "g1 1 = 20" "g1 2 = 20"
    "g2 0 = 2 ^ 52" "g2 1 = 2 ^ 52"
    by (simp_all add: g_def g1_def g2_def tape_def advance_apply numeral_2_eq_2)
  have w': "g (Suc 0) = 20" "g1 (Suc 0) = 20" using w by simp_all
  have a: "team_power (\<lambda>u. []) False 0 (squad 1 5) [] g = Inr ((150, []), g1)"
    unfolding squad_power g1_def by (simp add: w w')
  have b: "team_power (\<lambda>u. []) False 0 (squad 4 4) [] g1 = Inr ((120, []), g2)"
    unfolding squad_power g2_def by (simp add: w w')
  have c: "\<bar>150 :: int\<bar> \<le> 2 ^ 53" "\<bar>120 :: int\<bar> \<le> 2 ^ 53" by simp_all
  note t = team_battle_resolution [OF a b c, of Battle3v3]
  have ja: "fst (team_jitter Battle3v3 g2) = 1" "fst (team_jitter Battle3v3 (advance g2)) = 1"
  proof -
    have v: "fadd (fl (85 / 100)) (fmul (fsub (fl (115 / 100)) (fl (85 / 100)))
         (rat_of_int (2 ^ 52 mod 2 ^ 53) / 2 ^ 53)) = 1"
      by code_simp
    from t have "fst (team_jitter Battle3v3 g2) = fadd (fst (jitter_bounds Battle3v3))
         (fmul (fsub (snd (jitter_bounds Battle3v3)) (fst (jitter_bounds Battle3v3)))
            (rat_of_int (g2 0 mod 2 ^ 53) / 2 ^ 53))"
      and "fst (team_jitter Battle3v3 (advance g2)) = fadd (fst (jitter_bounds Battle3v3))
         (fmul (fsub (snd (jitter_bounds Battle3v3)) (fst (jitter_bounds Battle3v3)))
            (rat_of_int (g2 1 mod 2 ^ 53) / 2 ^ 53))"
      by blast+
    then show "fst (team_jitter Battle3v3 g2) = 1" "fst (team_jitter Battle3v3 (advance g2)) = 1"
      using v by (simp_all only: w jitter_bounds.simps fst_conv snd_conv)
  qed
  have r: "fmul (fmul (rat_of_int 120) 1) (fl (8 / 10)) < fmul (fmul (rat_of_int 150) 1) (fl (8 / 10))"
    by code_simp
  from t have "team_battle_winner Battle3v3 (\<lambda>u. []) False 0 (squad 1 5) (squad 4 4) [] g =
       (let team_a_roll = fmul (fmul (rat_of_int 150) (fst (team_jitter Battle3v3 g2)))
                            (coordination_penalty Battle3v3);
            team_b_roll = fmul (fmul (rat_of_int 120) (fst (team_jitter Battle3v3 (advance g2))))
                            (coordination_penalty Battle3v3)
        in Inr (((if team_a_roll > team_b_roll then (squad 1 5, squad 4 4) else (squad 4 4, squad 1 5)), []),
                advance (advance g2)))"
    by blast
  then have "team_battle_winner Battle3v3 (\<lambda>u. []) False 0 (squad 1 5) (squad 4 4) [] g
      = Inr (((squad 1 5, squad 4 4), []), advance (advance g2))"
    using r by (simp only: ja Let_def coordination_penalty.simps if_True)
  then show ?thesis using a by (simp add: result_def g_def)
qed

text \<open>The jitter range of 5v5 is not narrower than the one of 3v3.\<close>

theorem jitter_not_narrower_counterexample:
  "\<not> snd (jitter_bounds Battle5v5) - fst (jitter_bounds Battle5v5)
       < snd (jitter_bounds Battle3v3) - fst (jitter_bounds Battle3v3)"
  by code_simp

section \<open>Ties in a battle\<close>

lemma combat_rolls_no_crit:
  assumes "\<bar>p1\<bar> \<le> 2 ^ 53" "\<bar>p2\<bar> \<le> 2 ^ 53"
    and "\<not> rat_of_int (g 2 mod 2 ^ 53) / 2 ^ 53 < fl (1 / 10)"
    and "\<not> rat_of_int (g 3 mod 2 ^ 53) / 2 ^ 53 < fl (1 / 10)"
  shows "combat_rolls p1 p2 g =
    ((fmul (rat_of_int p1) (fadd (fl (8 / 10)) (fmul (fsub (fl (12 / 10)) (fl (8 / 10)))
         (rat_of_int (g 0 mod 2 ^ 53) / 2 ^ 53))),
      fmul (rat_of_int p2) (fadd (fl (8 / 10)) (fmul (fsub (fl (12 / 10)) (fl (8 / 10)))
         (rat_of_int (g 1 mod 2 ^ 53) / 2 ^ 53)))),
     advance (advance (advance (advance g))))"
proof -
  have w: "g (Suc (Suc 0)) = g 2" "g (Suc (Suc (Suc 0))) = g 3"
    by (simp_all add: numeral_2_eq_2 numeral_3_eq_3)
  show ?thesis
    using assms(3,4)
    by (simp add: combat_rolls_def uniform_def random_py_def Let_def advance_apply w
        to_float_exact_abs [OF assms(1)] to_float_exact_abs [OF assms(2)])
qed

lemma combat_winner_rule:
  "fst (fst (combat_simulate_battle (user1, p1) (user2, p2) g))
     = (if fst (fst (combat_rolls p1 p2 g)) > snd (fst (combat_rolls p1 p2 g)) then user1 else user2)"
  by (simp add: combat_simulate_battle_def Let_def split_beta)

lemma autoplay_simulate_battle_formula:
  "autoplay_simulate_battle c1 c2 its1 its2 h =
     (let char1_power = base_power c1 its1 + (- 20 + h 0 mod 41);
          char2_power = base_power c2 its2 + (- 20 + h 1 mod 41)
      in if char1_power \<ge> char2_power
         then Inr (\<lparr>winner = c1, loser = c2, power_diff = char1_power - char2_power\<rparr>,
                   advance (advance h))
         else Inr (\<lparr>winner = c2, loser = c1, power_diff = char2_power - char1_power\<rparr>,
                   advance (advance h)))"
  by (simp add: autoplay_simulate_battle_def randint_total bind_r_def Let_def base_power_def
      advance_apply)

lemma tie_scenario_rolls:
  "fst (combat_rolls 100 100 (tape [2 ^ 52, 2 ^ 52, 2 ^ 52, 2 ^ 52])) = (100, 100)"
proof -
  define g where "g = tape [2 ^ 52, 2 ^ 52, 2 ^ 52, 2 ^ 52]"
  have w: "g 0 = 2 ^ 52" "g 1 = 2 ^ 52" "g 2 = 2 ^ 52" "g 3 = 2 ^ 52"
    by (simp_all add: g_def tape_def numeral_2_eq_2 numeral_3_eq_3)
  have nc: "\<not> rat_of_int (2 ^ 52 mod 2 ^ 53) / 2 ^ 53 < fl (1 / 10)" by code_simp
  have v: "fmul (rat_of_int 100) (fadd (fl (8 / 10)) (fmul (fsub (fl (12 / 10)) (fl (8 / 10)))
         (rat_of_int (2 ^ 52 mod 2 ^ 53) / 2 ^ 53))) = 100" by code_simp
  have h1: "\<bar>100 :: int\<bar> \<le> 2 ^ 53" by simp
  have h3: "\<not> rat_of_int (g 2 mod 2 ^ 53) / 2 ^ 53 < fl (1 / 10)" unfolding w by (rule nc)
  have h4: "\<not> rat_of_int (g 3 mod 2 ^ 53) / 2 ^ 53 < fl (1 / 10)" unfolding w by (rule nc)
  have "fst (combat_rolls 100 100 g) = (100, 100)"
    unfolding combat_rolls_no_crit [OF h1 h1 h3 h4] w fst_conv v by (rule refl)
  thus ?thesis unfolding g_def .
qed

text \<open>
  Claim C9, as the code has it. When the two fighters of \<open>CombatCog.simulate_battle\<close> have
  the same power (within the range where its conversion to a float is exact), receive the same
  jitter draw and neither scores a critical hit, the two rolls are equal and the battle goes to
  the second fighter: the first wins only with a strictly higher roll. In
  \<open>AutoPlayCog.simulate_battle\<close> the comparison is \<open>>=\<close>: with equal powers before the draws
  and equal draws the first character wins, with a power difference of 0. Both rules are
  deterministic: the winner is a function of the two rolls.
\<close>

theorem tie_break_rule:
  assumes "\<bar>p\<bar> \<le> 2 ^ 53"
    and "g 0 mod 2 ^ 53 = g 1 mod 2 ^ 53"
    and "\<not> rat_of_int (g 2 mod 2 ^ 53) / 2 ^ 53 < fl (1 / 10)"
    and "\<not> rat_of_int (g 3 mod 2 ^ 53) / 2 ^ 53 < fl (1 / 10)"
    and "base_power c1 its1 = base_power c2 its2"
    and "h 0 mod 41 = h 1 mod 41"
  shows "fst (combat_rolls p p g) =
      (fmul (rat_of_int p) (fadd (fl (8 / 10)) (fmul (fsub (fl (12 / 10)) (fl (8 / 10)))
           (rat_of_int (g 0 mod 2 ^ 53) / 2 ^ 53))),
       fmul (rat_of_int p) (fadd (fl (8 / 10)) (fmul (fsub (fl (12 / 10)) (fl (8 / 10)))
           (rat_of_int (g 0 mod 2 ^ 53) / 2 ^ 53))))
    \<and> fst (fst (combat_simulate_battle (user1, p) (user2, p) g)) = user2
    \<and> fst (fst (combat_simulate_battle (user1, p1) (user2, p2) g))
        = (if fst (fst (combat_rolls p1 p2 g)) > snd (fst (combat_rolls p1 p2 g))
           then user1 else user2)
    \<and> result (autoplay_simulate_battle c1 c2 its1 its2 h)
        = Some \<lparr>winner = c1, loser = c2, power_diff = 0\<rparr>
    \<and> result (autoplay_simulate_battle c1 c2 its1 its2 h')
        = (let char1_power = base_power c1 its1 + (- 20 + h' 0 mod 41);
               char2_power = base_power c2 its2 + (- 20 + h' 1 mod 41)
           in if char1_power \<ge> char2_power
              then Some \<lparr>winner = c1, loser = c2, power_diff = char1_power - char2_power\<rparr>
              else Some \<lparr>winner = c2, loser = c1, power_diff = char2_power - char1_power\<rparr>)"
proof -
  note r = combat_rolls_no_crit [OF assms(1) assms(1) assms(3) assms(4)]
  have A: "fst (combat_rolls p p g) =
      (fmul (rat_of_int p) (fadd (fl (8 / 10)) (fmul (fsub (fl (12 / 10)) (fl (8 / 10)))
           (rat_of_int (g 0 mod 2 ^ 53) / 2 ^ 53))),
       fmul (rat_of_int p) (fadd (fl (8 / 10)) (fmul (fsub (fl (12 / 10)) (fl (8 / 10)))
           (rat_of_int (g 0 mod 2 ^ 53) / 2 ^ 53))))"
    using assms(2) by (simp add: r)
  have B: "fst (fst (combat_simulate_battle (user1, p) (user2, p) g)) = user2"
    unfolding combat_winner_rule A by simp
  have C: "result (autoplay_simulate_battle c1 c2 its1 its2 h)
        = Some \<lparr>winner = c1, loser = c2, power_diff = 0\<rparr>"
    by (simp add: autoplay_simulate_battle_formula assms(5,6) result_def)
  have D: "result (autoplay_simulate_battle c1 c2 its1 its2 h')
        = (let char1_power = base_power c1 its1 + (- 20 + h' 0 mod 41);
               char2_power = base_power c2 its2 + (- 20 + h' 1 mod 41)
           in if char1_power \<ge> char2_power
              then Some \<lparr>winner = c1, loser = c2, power_diff = char1_power - char2_power\<rparr>
              else Some \<lparr>winner = c2, loser = c1, power_diff = char2_power - char1_power\<rparr>)"
    by (simp add: autoplay_simulate_battle_formula result_def Let_def)
  show ?thesis by (intro conjI A B combat_winner_rule C D)
qed

theorem tie_break_rule_witness:
  "fst (fst (combat_simulate_battle (''first'', 100) (''second'', 100)
       (tape [2 ^ 52, 2 ^ 52, 2 ^ 52, 2 ^ 52]))) = ''second''
   \<and> result (autoplay_simulate_battle \<lparr>cr_user_id = 1, cr_name = ''first'', cr_level = 10\<rparr>
        \<lparr>cr_user_id = 2, cr_name = ''second'', cr_level = 10\<rparr> [] [] (tape [7, 7]))
     = Some \<lparr>winner = \<lparr>cr_user_id = 1, cr_name = ''first'', cr_level = 10\<rparr>,
             loser = \<lparr>cr_user_id = 2, cr_name = ''second'', cr_level = 10\<rparr>, power_diff = 0\<rparr>"
proof -
  define g where "g = tape [2 ^ 52, 2 ^ 52, 2 ^ 52, 2 ^ 52]"
  define h where "h = tape [7, 7]"
  have w: "g 0 = 2 ^ 52" "g 1 = 2 ^ 52" "g 2 = 2 ^ 52" "g 3 = 2 ^ 52" "h 0 = 7" "h 1 = 7"
    by (simp_all add: g_def h_def tape_def numeral_2_eq_2 numeral_3_eq_3)
  have nc: "\<not> rat_of_int (2 ^ 52 mod 2 ^ 53) / 2 ^ 53 < fl (1 / 10)" by code_simp
  have h1: "\<bar>100 :: int\<bar> \<le> 2 ^ 53" by simp
  have h2: "g 0 mod 2 ^ 53 = g 1 mod 2 ^ 53" by (simp only: w)
  have h3: "\<not> rat_of_int (g 2 mod 2 ^ 53) / 2 ^ 53 < fl (1 / 10)" unfolding w by (rule nc)
  have h4: "\<not> rat_of_int (g 3 mod 2 ^ 53) / 2 ^ 53 < fl (1 / 10)" unfolding w by (rule nc)
  have h5: "base_power \<lparr>cr_user_id = 1, cr_name = ''first'', cr_level = 10\<rparr> []
      = base_power \<lparr>cr_user_id = 2, cr_name = ''second'', cr_level = 10\<rparr> []"
    by (simp add: base_power_def armor_bonuses_def)
  have h6: "h 0 mod 41 = h 1 mod 41" by (simp only: w)
  from tie_break_rule [OF h1 h2 h3 h4 h5 h6, of "''first''" "''second''"]
  show ?thesis unfolding g_def h_def by blast
qed

theorem first_wins_ties_counterexample:
  "fst (uniform (fl (8 / 10)) (fl (12 / 10)) (tape [2 ^ 52])) = 1
   \<and> fst (combat_rolls 100 100 (tape [2 ^ 52, 2 ^ 52, 2 ^ 52, 2 ^ 52])) = (100, 100)
   \<and> fst (fst (combat_simulate_battle (''first'', 100) (''second'', 100)
        (tape [2 ^ 52, 2 ^ 52, 2 ^ 52, 2 ^ 52]))) \<noteq> ''first''"
proof -
  have a: "fst (uniform (fl (8 / 10)) (fl (12 / 10)) (tape [2 ^ 52])) = 1" by code_simp
  have b: "fst (fst (combat_simulate_battle (''first'', 100) (''second'', 100)
        (tape [2 ^ 52, 2 ^ 52, 2 ^ 52, 2 ^ 52]))) \<noteq> ''first''"
    unfolding combat_winner_rule tie_scenario_rolls by simp
  show ?thesis by (intro conjI a tie_scenario_rolls b)
qed

section \<open>Determinism of the battle power\<close>

lemma get_active_blessings_again:
  "fst (get_active_blessings u now (snd (get_active_blessings u now table)))
     = fst (get_active_blessings u now table)"
proof -
  have "filter (\<lambda>b. bl_user_id b = u \<and> bl_expires_at b > now)
          (filter (\<lambda>b. \<not> (bl_user_id b = u \<and> bl_expires_at b \<le> now)) table)
        = filter (\<lambda>b. bl_user_id b = u \<and> bl_expires_at b > now) table"
    unfolding filter_filter by (rule filter_cong) auto
  thus ?thesis by (simp add: get_active_blessings_def Let_def)
qed

lemma combat_power_again:
  "fst (combat_calculate_battle_power cd items cog now
          (snd (combat_calculate_battle_power cd items cog now table)))
     = fst (combat_calculate_battle_power cd items cog now table)"
proof (cases cog)
  case True
  have s: "snd (combat_calculate_battle_power cd items True now table)
      = snd (get_active_blessings (cd_user_id cd) now table)"
    by (simp add: combat_calculate_battle_power_def Let_def split_beta)
  have f: "fst (combat_calculate_battle_power cd items True now t)
      = max 1 (py_int (fmul (fmul (to_float (cd_level cd * 5
          + (sum_list (map (\<lambda>item. row_damage item + row_armor item) items)
             + (sum_list (map (\<lambda>item. dict_get (row_health_bonus item) 0) items)
                + sum_list (map (\<lambda>item. dict_get (row_speed_bonus item) 0) items)
                + py_int (fmul (float_sum (map (\<lambda>item. dict_get (row_luck_bonus item) 0) items)) 100)
                + py_int (fmul (float_sum (map (\<lambda>item. dict_get (row_crit_bonus item) 0) items)) 100)
                + sum_list (map (\<lambda>item. dict_get (row_magic_bonus item) 0) items)))
          + cd_level cd * 2))
         (fadd (cd_luck cd) (b_luck (fst (get_active_blessings (cd_user_id cd) now t)))))
         (b_battle_mult (fst (get_active_blessings (cd_user_id cd) now t)))))" for t
    by (simp add: combat_calculate_battle_power_def Let_def split_beta)
  from True have c: "cog = True" by simp
  show ?thesis unfolding c s f get_active_blessings_again by (rule refl)
next
  case False
  then show ?thesis by (simp add: combat_calculate_battle_power_def Let_def split_beta)
qed

lemma autoplay_power_formula:
  "autoplay_calculate_battle_power char its cog now table g =
     (let base_power = cr_level char * 10
            + sum_list (map (\<lambda>item. row_damage item + row_armor item) its)
            + (- 20 + g 0 mod 41)
      in if cog
         then Inr ((py_int (fmul (to_float base_power)
                      (b_battle_mult (fst (get_active_blessings (cr_user_id char) now table)))),
                    snd (get_active_blessings (cr_user_id char) now table)), advance g)
         else Inr ((base_power, table), advance g))"
  by (simp add: autoplay_calculate_battle_power_def randint_total bind_r_def Let_def split_beta)

text \<open>
  Claim C7, as the code has it. \<open>CombatCog.calculate_battle_power\<close> draws nothing: it is a
  function of the character, the equipped items, the table of blessings and the clock. Its one
  effect is the deletion of the expired blessings of the user, and a second evaluation at the
  same clock on the table the first one leaves returns the same power. Without the religion
  cog the power is the closed expression below and the table is untouched.
  \<open>AutoPlayCog.calculate_battle_power\<close> is different: it adds \<open>random.randint(-20, 20)\<close>,
  drawn inside the function from the next word of the generator, to the level and equipment
  part, before the blessing multiplier is applied.
\<close>

theorem battle_power_determinism:
  "fst (combat_calculate_battle_power cd items cog now
          (snd (combat_calculate_battle_power cd items cog now table)))
     = fst (combat_calculate_battle_power cd items cog now table)
   \<and> combat_calculate_battle_power cd items False now table
     = (max 1 (py_int (fmul (fmul (to_float (cd_level cd * 5
          + (sum_list (map (\<lambda>item. row_damage item + row_armor item) items)
             + (sum_list (map (\<lambda>item. dict_get (row_health_bonus item) 0) items)
                + sum_list (map (\<lambda>item. dict_get (row_speed_bonus item) 0) items)
                + py_int (fmul (float_sum (map (\<lambda>item. dict_get (row_luck_bonus item) 0) items)) 100)
                + py_int (fmul (float_sum (map (\<lambda>item. dict_get (row_crit_bonus item) 0) items)) 100)
                + sum_list (map (\<lambda>item. dict_get (row_magic_bonus item) 0) items)))
          + cd_level cd * 2)) (cd_luck cd)) 1)), table)
   \<and> autoplay_calculate_battle_power char its cog now table g =
     (let base_power = cr_level char * 10
            + sum_list (map (\<lambda>item. row_damage item + row_armor item) its)
            + (- 20 + g 0 mod 41)
      in if cog
         then Inr ((py_int (fmul (to_float base_power)
                      (b_battle_mult (fst (get_active_blessings (cr_user_id char) now table)))),
                    snd (get_active_blessings (cr_user_id char) now table)), advance g)
         else Inr ((base_power, table), advance g))"
proof -
  have b: "combat_calculate_battle_power cd items False now table
     = (max 1 (py_int (fmul (fmul (to_float (cd_level cd * 5
          + (sum_list (map (\<lambda>item. row_damage item + row_armor item) items)
             + (sum_list (map (\<lambda>item. dict_get (row_health_bonus item) 0) items)
                + sum_list (map (\<lambda>item. dict_get (row_speed_bonus item) 0) items)
                + py_int (fmul (float_sum (map (\<lambda>item. dict_get (row_luck_bonus item) 0) items)) 100)
                + py_int (fmul (float_sum (map (\<lambda>item. dict_get (row_crit_bonus item) 0) items)) 100)
                + sum_list (map (\<lambda>item. dict_get (row_magic_bonus item) 0) items)))
          + cd_level cd * 2)) (cd_luck cd)) 1)), table)"
    by (simp add: combat_calculate_battle_power_def Let_def)
  show ?thesis by (intro conjI combat_power_again b autoplay_power_formula)
qed

lemma blessed_power:
  "combat_calculate_battle_power (novice\<lparr>cd_level := 5\<rparr>) [plain_row SWORD 30 7] True 50
      [valor, stale] = (216, [valor])"
  apply (simp add: combat_calculate_battle_power_def Let_def split_beta get_active_blessings_def
      apply_blessing_def no_blessing_def novice_def plain_row_def valor_def stale_def dict_get_def
      float_sum_def)
  apply code_simp
  done

theorem battle_power_determinism_witness:
  "combat_calculate_battle_power (novice\<lparr>cd_level := 5\<rparr>) [plain_row SWORD 30 7] True 50
      [valor, stale] = (216, [valor])
   \<and> fst (combat_calculate_battle_power (novice\<lparr>cd_level := 5\<rparr>) [plain_row SWORD 30 7] True 50
      [valor]) = 216"
  using battle_power_determinism [of "novice\<lparr>cd_level := 5\<rparr>" "[plain_row SWORD 30 7]" True 50
      "[valor, stale]"]
  by (simp add: blessed_power)

theorem power_draws_inside_counterexample:
  "map_option fst (result (autoplay_calculate_battle_power
       \<lparr>cr_user_id = 1, cr_name = ''first'', cr_level = 5\<rparr> [] False 0 [] (tape [0]))) = Some 30
   \<and> map_option fst (result (autoplay_calculate_battle_power
       \<lparr>cr_user_id = 1, cr_name = ''first'', cr_level = 5\<rparr> [] False 0 [] (tape [40]))) = Some 70"
  by (simp add: autoplay_power_formula result_def tape_def)

(*LEMMAS-END*)

end
